theory Spec2Isabelle
  imports Main
begin

section \<open>Data model (types/config.ts)\<close>

text \<open>
  Timestamps are the ISO strings produced by \<^verbatim>\<open>new Date().toISOString()\<close>. Every clock
  read of the source is an explicit argument of the function that performs it, in the
  order in which the reads happen; two reads inside one call may return different values.
  A settings bag (\<^verbatim>\<open>Record<string, any>\<close>) is a finite map from keys to values of an
  arbitrary JSON-representable type \<open>'v\<close>.
\<close>

type_synonym timestamp = string

record 'v ConfigurationProfile =
  id' :: string
  name :: string
  settings :: "string \<rightharpoonup> 'v"
  createdAt :: timestamp
  updatedAt :: timestamp
  version :: int

text \<open>\<^verbatim>\<open>ConfigurationUpdate\<close>: both fields are optional.\<close>

record 'v ConfigurationUpdate =
  settings_upd :: "(string \<rightharpoonup> 'v) option"
  name_upd :: "string option"

text \<open>\<^verbatim>\<open>NewProfileRequest\<close>: \<^verbatim>\<open>copyFromCurrent\<close> is optional.\<close>

record NewProfileRequest =
  name_req :: string
  copyFromCurrent :: "bool option"

record 'v ConfigurationState =
  currentProfile :: "'v ConfigurationProfile option"
  profiles :: "'v ConfigurationProfile list"
  loading :: bool
  error :: "string option"

section \<open>The durable medium: localStorage and the JSON codec\<close>

text \<open>
  An item of localStorage is a piece of text. The text is either what
  \<^verbatim>\<open>JSON.stringify\<close> produced from a value of type \<open>'a\<close>, or some other string that
  \<^verbatim>\<open>JSON.parse\<close> rejects with a SyntaxError (the empty string, which the loaders treat as
  absent, is one of these). \<^verbatim>\<open>JSON.parse\<close> gives back the value that was serialized.
  At the type of all JSON values (\<open>json\<close>, below) \<open>Serialized\<close> ranges over every text
  that \<^verbatim>\<open>JSON.parse\<close> accepts; at the type of a profile, or of a list of profiles, it
  ranges over the texts that the service itself writes.
\<close>

datatype 'a json_text = Serialized 'a | Malformed string

definition JSON_stringify :: "'a \<Rightarrow> 'a json_text" where
  "JSON_stringify v = Serialized v"

text \<open>\<open>Inl\<close> is the SyntaxError that \<^verbatim>\<open>JSON.parse\<close> throws.\<close>

fun JSON_parse :: "'a json_text \<Rightarrow> string + 'a" where
  "JSON_parse (Serialized v) = Inr v"
| "JSON_parse (Malformed s) = Inl ''SyntaxError''"

text \<open>
  The two items the service uses, \<^verbatim>\<open>nexusflow-config\<close> (\<open>CONFIG_STORAGE_KEY\<close>) and
  \<^verbatim>\<open>nexusflow-profiles\<close> (\<open>PROFILES_STORAGE_KEY\<close>), and a journal of the accepted
  mutations of the medium, in the order in which they happened.
\<close>

datatype 'v durable_write =
    SetConfig "'v ConfigurationProfile json_text"
  | SetProfiles "'v ConfigurationProfile list json_text"
  | RemoveConfig

record 'v localStorage =
  CONFIG_STORAGE_KEY :: "'v ConfigurationProfile json_text option"
  PROFILES_STORAGE_KEY :: "'v ConfigurationProfile list json_text option"
  journal :: "'v durable_write list"

text \<open>
  The medium may reject a write (quota exceeded): it is a function of the contents the two
  items would have after the write, returning the message of the exception it throws, or
  \<open>None\<close> when it accepts.
\<close>

type_synonym 'v medium =
  "'v ConfigurationProfile json_text option \<Rightarrow> 'v ConfigurationProfile list json_text option
     \<Rightarrow> string option"

definition setItem_config ::
  "'v medium \<Rightarrow> 'v ConfigurationProfile json_text \<Rightarrow> 'v localStorage \<Rightarrow> string + 'v localStorage"
where
  "setItem_config md v ls =
     (case md (Some v) (PROFILES_STORAGE_KEY ls) of
        Some msg \<Rightarrow> Inl msg
      | None \<Rightarrow> Inr (ls\<lparr>CONFIG_STORAGE_KEY := Some v, journal := journal ls @ [SetConfig v]\<rparr>))"

definition setItem_profiles ::
  "'v medium \<Rightarrow> 'v ConfigurationProfile list json_text \<Rightarrow> 'v localStorage \<Rightarrow> string + 'v localStorage"
where
  "setItem_profiles md v ls =
     (case md (CONFIG_STORAGE_KEY ls) (Some v) of
        Some msg \<Rightarrow> Inl msg
      | None \<Rightarrow> Inr (ls\<lparr>PROFILES_STORAGE_KEY := Some v, journal := journal ls @ [SetProfiles v]\<rparr>))"

definition removeItem_config :: "'v localStorage \<Rightarrow> 'v localStorage" where
  "removeItem_config ls = ls\<lparr>CONFIG_STORAGE_KEY := None, journal := journal ls @ [RemoveConfig]\<rparr>"

text \<open>The medium that accepts every write.\<close>

definition unbounded :: "'v medium" where
  "unbounded c p = None"

section \<open>ProfileStore (LocalStorageService, the four raw operations)\<close>

text \<open>
  An operation that can throw returns the pair of its outcome (\<open>Inl\<close> the message of the
  Error thrown, \<open>Inr\<close> the value returned) and the storage it leaves behind, since writes
  made before a throw stay made.
\<close>

definition saveCurrentProfile ::
  "'v medium \<Rightarrow> timestamp \<Rightarrow> 'v ConfigurationProfile \<Rightarrow> 'v localStorage
     \<Rightarrow> (string + unit) \<times> 'v localStorage"
where
  "saveCurrentProfile md now profile ls =
     (let updatedProfile = profile\<lparr>updatedAt := now\<rparr> in
      case setItem_config md (JSON_stringify updatedProfile) ls of
        Inl msg \<Rightarrow> (Inl (''Failed to save configuration: '' @ msg), ls)
      | Inr ls' \<Rightarrow> (Inr (), ls'))"

text \<open>
  The loaders wrap their whole body in try/catch; the handler logs and returns
  \<^verbatim>\<open>null\<close> (resp. \<^verbatim>\<open>[]\<close>). \<open>None\<close> is \<^verbatim>\<open>null\<close>. These two definitions
  are the loaders on a storage whose items hold what the service writes, which is the
  storage the operations below work on; the loaders on text of any shape follow them.
\<close>

definition loadCurrentProfile :: "'v localStorage \<Rightarrow> 'v ConfigurationProfile option" where
  "loadCurrentProfile ls =
     (case CONFIG_STORAGE_KEY ls of
        None \<Rightarrow> None
      | Some profileData \<Rightarrow>
          (case JSON_parse profileData of
             Inl err \<Rightarrow> None
           | Inr profile \<Rightarrow> Some profile))"

definition saveProfiles ::
  "'v medium \<Rightarrow> 'v ConfigurationProfile list \<Rightarrow> 'v localStorage
     \<Rightarrow> (string + unit) \<times> 'v localStorage"
where
  "saveProfiles md ps ls =
     (case setItem_profiles md (JSON_stringify ps) ls of
        Inl msg \<Rightarrow> (Inl (''Failed to save profiles: '' @ msg), ls)
      | Inr ls' \<Rightarrow> (Inr (), ls'))"

definition loadProfiles :: "'v localStorage \<Rightarrow> 'v ConfigurationProfile list" where
  "loadProfiles ls =
     (case PROFILES_STORAGE_KEY ls of
        None \<Rightarrow> []
      | Some profilesData \<Rightarrow>
          (case JSON_parse profilesData of
             Inl err \<Rightarrow> []
           | Inr ps \<Rightarrow> ps))"

text \<open>
  The type annotations on what \<^verbatim>\<open>JSON.parse\<close> returns are not checked at run time: each
  loader returns whatever value the text of its item parses to. The JSON values, with
  numbers of an arbitrary type \<open>'n\<close>, and the two items as text of any shape; here the
  \<^verbatim>\<open>null\<close> and the \<^verbatim>\<open>[]\<close> that the loaders return are \<open>JNull\<close> and \<open>JArr []\<close>.
\<close>

datatype 'n json =
    JNull
  | JBool bool
  | JNum 'n
  | JStr string
  | JArr "'n json list"
  | JObj "(string \<times> 'n json) list"

record 'n anyStorage =
  CONFIG_STORAGE_TEXT :: "'n json json_text option"
  PROFILES_STORAGE_TEXT :: "'n json json_text option"

definition loadCurrentProfile_any :: "'n anyStorage \<Rightarrow> 'n json" where
  "loadCurrentProfile_any st =
     (case CONFIG_STORAGE_TEXT st of
        None \<Rightarrow> JNull
      | Some profileData \<Rightarrow>
          (case JSON_parse profileData of
             Inl err \<Rightarrow> JNull
           | Inr profile \<Rightarrow> profile))"

definition loadProfiles_any :: "'n anyStorage \<Rightarrow> 'n json" where
  "loadProfiles_any st =
     (case PROFILES_STORAGE_TEXT st of
        None \<Rightarrow> JArr []
      | Some profilesData \<Rightarrow>
          (case JSON_parse profilesData of
             Inl err \<Rightarrow> JArr []
           | Inr ps \<Rightarrow> ps))"

text \<open>
  The storage of the typed operations seen as text of any shape, \<open>enc\<close> being the JSON
  object that the text of a profile denotes.
\<close>

definition asText :: "('a \<Rightarrow> 'n json) \<Rightarrow> 'a json_text \<Rightarrow> 'n json json_text" where
  "asText enc d = (case d of Serialized v \<Rightarrow> Serialized (enc v) | Malformed s \<Rightarrow> Malformed s)"

definition untyped :: "('v ConfigurationProfile \<Rightarrow> 'n json) \<Rightarrow> 'v localStorage \<Rightarrow> 'n anyStorage" where
  "untyped enc ls =
     \<lparr> CONFIG_STORAGE_TEXT = map_option (asText enc) (CONFIG_STORAGE_KEY ls),
       PROFILES_STORAGE_TEXT =
         map_option (asText (\<lambda>ps. JArr (map enc ps))) (PROFILES_STORAGE_KEY ls) \<rparr>"

section \<open>ProfileManager (LocalStorageService, the CRUD operations)\<close>

text \<open>
  \<^verbatim>\<open>Array.prototype.findIndex\<close>: the index of the first element that satisfies the
  predicate; \<open>None\<close> is the source's \<^verbatim>\<open>-1\<close>.
\<close>

fun findIndex :: "('a \<Rightarrow> bool) \<Rightarrow> 'a list \<Rightarrow> nat option" where
  "findIndex P [] = None"
| "findIndex P (x # xs) = (if P x then Some 0 else map_option Suc (findIndex P xs))"

text \<open>
  The decimal rendering of a non-negative integer, as the template literal renders
  \<^verbatim>\<open>Date.now()\<close>.
\<close>

definition digit :: "nat \<Rightarrow> char" where
  "digit d = ''0123456789'' ! d"

fun decimal :: "nat \<Rightarrow> string" where
  "decimal n = (if n < 10 then [digit n] else decimal (n div 10) @ [digit (n mod 10)])"

declare decimal.simps [simp del]

text \<open>
  \<open>createProfile\<close>. Its inputs from the environment, in the order the source reads them:
  \<open>t\<close> is the value of \<^verbatim>\<open>Date.now()\<close>, \<open>rnd\<close> the value of
  \<^verbatim>\<open>Math.random().toString(36).substr(2, 9)\<close>, \<open>now\<close> the value of
  \<^verbatim>\<open>new Date().toISOString()\<close>, and \<open>now2\<close> the clock read inside
  \<open>saveCurrentProfile\<close>, when that call happens. \<open>newProfile\<close> is the object literal the
  source binds to that name. A settings object is always truthy, so
  \<^verbatim>\<open>loadCurrentProfile()?.settings || {}\<close> is the empty bag exactly when no current
  profile loads.
\<close>

definition newProfile ::
  "nat \<Rightarrow> string \<Rightarrow> timestamp \<Rightarrow> NewProfileRequest \<Rightarrow> 'v localStorage \<Rightarrow> 'v ConfigurationProfile"
where
  "newProfile t rnd now profileData ls =
     \<lparr> id' = ''profile_'' @ decimal t @ ''_'' @ rnd,
       name = name_req profileData,
       settings =
         (if copyFromCurrent profileData \<noteq> Some False
          then (case loadCurrentProfile ls of
                  Some cur \<Rightarrow> settings cur
                | None \<Rightarrow> Map.empty)
          else Map.empty),
       createdAt = now,
       updatedAt = now,
       version = 1 \<rparr>"

definition createProfile ::
  "'v medium \<Rightarrow> nat \<Rightarrow> string \<Rightarrow> timestamp \<Rightarrow> timestamp \<Rightarrow> NewProfileRequest \<Rightarrow> 'v localStorage
     \<Rightarrow> (string + 'v ConfigurationProfile) \<times> 'v localStorage"
where
  "createProfile md t rnd now now2 profileData ls =
     (let created = newProfile t rnd now profileData ls;
          existingProfiles = loadProfiles ls;
          updatedProfiles = existingProfiles @ [created]
      in case saveProfiles md updatedProfiles ls of
           (Inl e, ls1) \<Rightarrow> (Inl e, ls1)
         | (Inr u, ls1) \<Rightarrow>
             if length existingProfiles = 0
             then (case saveCurrentProfile md now2 created ls1 of
                     (Inl e, ls2) \<Rightarrow> (Inl e, ls2)
                   | (Inr u, ls2) \<Rightarrow> (Inr created, ls2))
             else (Inr created, ls1))"

text \<open>
  \<open>updateProfile\<close>. \<open>now\<close> is the clock read that stamps the merged profile, \<open>now2\<close>
  the clock read inside \<open>saveCurrentProfile\<close>, when that call happens. The object spread
  \<^verbatim>\<open>{...profile, ...updates, updatedAt, settings}\<close> that the source binds to
  \<^verbatim>\<open>updatedProfile\<close> replaces \<open>name\<close> when the update has one;
  \<^verbatim>\<open>{...old, ...new}\<close> on the bags is \<open>old ++ new\<close>. An update is a
  \<^verbatim>\<open>ConfigurationUpdate\<close> whose \<open>name\<close> key is either absent (\<open>None\<close>) or a string: an
  object that has the key with the value \<^verbatim>\<open>undefined\<close>, which the spread would copy over
  the name, is not one of the updates modelled here.
\<close>

definition updatedProfile ::
  "timestamp \<Rightarrow> 'v ConfigurationUpdate \<Rightarrow> 'v ConfigurationProfile \<Rightarrow> 'v ConfigurationProfile"
where
  "updatedProfile now updates old =
     old\<lparr> name := (case name_upd updates of Some n \<Rightarrow> n | None \<Rightarrow> name old),
          updatedAt := now,
          settings := (case settings_upd updates of
                         Some s \<Rightarrow> settings old ++ s
                       | None \<Rightarrow> settings old) \<rparr>"

definition updateProfile ::
  "'v medium \<Rightarrow> timestamp \<Rightarrow> timestamp \<Rightarrow> string \<Rightarrow> 'v ConfigurationUpdate \<Rightarrow> 'v localStorage
     \<Rightarrow> (string + 'v ConfigurationProfile option) \<times> 'v localStorage"
where
  "updateProfile md now now2 profileId updates ls =
     (let ps = loadProfiles ls in
      case findIndex (\<lambda>profile. id' profile = profileId) ps of
        None \<Rightarrow> (Inr None, ls)
      | Some profileIndex \<Rightarrow>
          (let merged = updatedProfile now updates (ps ! profileIndex);
               ps' = ps[profileIndex := merged]
           in case saveProfiles md ps' ls of
                (Inl e, ls1) \<Rightarrow> (Inl e, ls1)
              | (Inr u, ls1) \<Rightarrow>
                  (case loadCurrentProfile ls1 of
                     Some cur \<Rightarrow>
                       if id' cur = profileId
                       then (case saveCurrentProfile md now2 merged ls1 of
                               (Inl e, ls2) \<Rightarrow> (Inl e, ls2)
                             | (Inr u, ls2) \<Rightarrow> (Inr (Some merged), ls2))
                       else (Inr (Some merged), ls1)
                   | None \<Rightarrow> (Inr (Some merged), ls1))))"

text \<open>\<open>deleteProfile\<close>. \<open>now\<close> is the clock read inside \<open>saveCurrentProfile\<close>.\<close>

definition deleteProfile ::
  "'v medium \<Rightarrow> timestamp \<Rightarrow> string \<Rightarrow> 'v localStorage \<Rightarrow> (string + bool) \<times> 'v localStorage"
where
  "deleteProfile md now profileId ls =
     (let ps = loadProfiles ls in
      case findIndex (\<lambda>profile. id' profile = profileId) ps of
        None \<Rightarrow> (Inr False, ls)
      | Some profileIndex \<Rightarrow>
          (let ps' = filter (\<lambda>profile. id' profile \<noteq> profileId) ps in
           case saveProfiles md ps' ls of
             (Inl e, ls1) \<Rightarrow> (Inl e, ls1)
           | (Inr u, ls1) \<Rightarrow>
               (case loadCurrentProfile ls1 of
                  Some cur \<Rightarrow>
                    if id' cur = profileId
                    then (case ps' of
                            p0 # rest \<Rightarrow>
                              (case saveCurrentProfile md now p0 ls1 of
                                 (Inl e, ls2) \<Rightarrow> (Inl e, ls2)
                               | (Inr u, ls2) \<Rightarrow> (Inr True, ls2))
                          | [] \<Rightarrow> (Inr True, removeItem_config ls1))
                    else (Inr True, ls1)
                | None \<Rightarrow> (Inr True, ls1))))"

section \<open>StateProjector (configurationReducer)\<close>

datatype 'v ConfigurationAction =
    LOAD_START
  | LOAD_SUCCESS "'v ConfigurationProfile option" "'v ConfigurationProfile list"
  | LOAD_ERROR string
  | SAVE_START
  | SAVE_SUCCESS "'v ConfigurationProfile"
  | SAVE_ERROR string
  | CREATE_PROFILE_SUCCESS "'v ConfigurationProfile"
  | SWITCH_PROFILE_SUCCESS "'v ConfigurationProfile"
  | DELETE_PROFILE_SUCCESS string
  | UPDATE_SETTING string 'v

definition initialState :: "'v ConfigurationState" where
  "initialState = \<lparr> currentProfile = None, profiles = [], loading = False, error = None \<rparr>"

text \<open>
  The reducer reads the clock in its \<open>UPDATE_SETTING\<close> branch; \<open>now\<close> is that reading.
  \<^verbatim>\<open>state.currentProfile?.id === action.payload\<close> is false when there is no current
  profile.
\<close>

fun configurationReducer ::
  "timestamp \<Rightarrow> 'v ConfigurationState \<Rightarrow> 'v ConfigurationAction \<Rightarrow> 'v ConfigurationState"
where
  "configurationReducer now state LOAD_START = state\<lparr>loading := True, error := None\<rparr>"
| "configurationReducer now state (LOAD_SUCCESS cur ps) =
     state\<lparr>loading := False, currentProfile := cur, profiles := ps\<rparr>"
| "configurationReducer now state (LOAD_ERROR msg) = state\<lparr>loading := False, error := Some msg\<rparr>"
| "configurationReducer now state SAVE_START = state\<lparr>loading := True\<rparr>"
| "configurationReducer now state (SAVE_SUCCESS payload) =
     state\<lparr>loading := False,
           currentProfile := Some payload,
           profiles := map (\<lambda>p. if id' p = id' payload then payload else p) (profiles state)\<rparr>"
| "configurationReducer now state (SAVE_ERROR msg) = state\<lparr>loading := False, error := Some msg\<rparr>"
| "configurationReducer now state (CREATE_PROFILE_SUCCESS payload) =
     state\<lparr>profiles := profiles state @ [payload],
           currentProfile :=
             (if length (profiles state) = 0 then Some payload else currentProfile state)\<rparr>"
| "configurationReducer now state (SWITCH_PROFILE_SUCCESS payload) =
     state\<lparr>currentProfile := Some payload\<rparr>"
| "configurationReducer now state (DELETE_PROFILE_SUCCESS payload) =
     state\<lparr>profiles := filter (\<lambda>p. id' p \<noteq> payload) (profiles state),
           currentProfile :=
             (case currentProfile state of
                None \<Rightarrow> None
              | Some cur \<Rightarrow> if id' cur = payload then None else Some cur)\<rparr>"
| "configurationReducer now state (UPDATE_SETTING key val) =
     (case currentProfile state of
        None \<Rightarrow> state
      | Some cur \<Rightarrow>
          state\<lparr>currentProfile :=
                  Some (cur\<lparr>settings := (settings cur)(key \<mapsto> val), updatedAt := now\<rparr>)\<rparr>)"

section \<open>The provider's switchProfile (configStore)\<close>

text \<open>
  \<open>state\<close> is the projector state the closure holds; \<open>dispatch\<close> applies the reducer to
  it (neither action dispatched here reads the clock, so the reducer gets an empty
  reading). \<open>now1\<close> and \<open>now2\<close> are the clock reads of the two \<open>saveCurrentProfile\<close> calls.
  The handler of the try block dispatches \<open>LOAD_ERROR\<close> and throws the error again. The
  result is the outcome, the storage and the projector state the call leaves behind.
\<close>

definition switchProfile_catch ::
  "string \<Rightarrow> 'v localStorage \<Rightarrow> 'v ConfigurationState
     \<Rightarrow> (string + unit) \<times> 'v localStorage \<times> 'v ConfigurationState"
where
  "switchProfile_catch msg ls state =
     (Inl msg, ls,
      configurationReducer [] state (LOAD_ERROR (''Failed to switch profile: '' @ msg)))"

definition switchProfile ::
  "'v medium \<Rightarrow> timestamp \<Rightarrow> timestamp \<Rightarrow> string \<Rightarrow> 'v ConfigurationState \<Rightarrow> 'v localStorage
     \<Rightarrow> (string + unit) \<times> 'v localStorage \<times> 'v ConfigurationState"
where
  "switchProfile md now1 now2 profileId state ls =
     (case find (\<lambda>p. id' p = profileId) (loadProfiles ls) of
        None \<Rightarrow> switchProfile_catch (''Profile with id '' @ profileId @ '' not found'') ls state
      | Some profileToSwitch \<Rightarrow>
          (case (case currentProfile state of
                   Some cur \<Rightarrow> saveCurrentProfile md now1 cur ls
                 | None \<Rightarrow> (Inr (), ls)) of
             (Inl e, ls1) \<Rightarrow> switchProfile_catch e ls1 state
           | (Inr u, ls1) \<Rightarrow>
               (case saveCurrentProfile md now2 profileToSwitch ls1 of
                  (Inl e, ls2) \<Rightarrow> switchProfile_catch e ls2 state
                | (Inr u, ls2) \<Rightarrow>
                    (Inr (), ls2,
                     configurationReducer [] state (SWITCH_PROFILE_SUCCESS profileToSwitch)))))"

section \<open>AutosaveCoalescer (debounce)\<close>

text \<open>
  The JavaScript timer facility in virtual time. A pending timeout has the handle that
  \<^verbatim>\<open>setTimeout\<close> returned, the time at which it is due, and its callback; every callback
  scheduled here is the closure \<^verbatim>\<open>later\<close>, which is determined by the arguments it
  captured and by the \<open>func\<close> that \<^verbatim>\<open>debounce\<close> was given (the event loop below takes
  \<open>func\<close> as its argument). \<open>timeout\<close> is the variable of that name in the closure of \<^verbatim>\<open>debounce\<close>
  (\<open>None\<close> while it is undefined), and \<open>world\<close> is the state the debounced function
  acts on.
\<close>

record 'a timer =
  handle :: nat
  due :: nat
  args :: 'a

record ('a, 'w) runtime =
  clock :: nat
  timers :: "'a timer list"
  next_handle :: nat
  timeout :: "nat option"
  world :: 'w

definition clearTimeout :: "nat option \<Rightarrow> ('a, 'w) runtime \<Rightarrow> ('a, 'w) runtime" where
  "clearTimeout h s = s\<lparr>timers := filter (\<lambda>t. Some (handle t) \<noteq> h) (timers s)\<rparr>"

definition setTimeout :: "'a \<Rightarrow> nat \<Rightarrow> ('a, 'w) runtime \<Rightarrow> nat \<times> ('a, 'w) runtime" where
  "setTimeout a wait s =
     (next_handle s,
      s\<lparr>timers := timers s @ [\<lparr>handle = next_handle s, due = clock s + wait, args = a\<rparr>],
        next_handle := Suc (next_handle s)\<rparr>)"

text \<open>
  \<open>func\<close> gets the captured arguments, the time at which it runs and the world. An
  exception it throws inside the timer callback is caught by nobody and changes nothing,
  so \<open>func\<close> returns the world only.
\<close>

definition later :: "('a \<Rightarrow> nat \<Rightarrow> 'w \<Rightarrow> 'w) \<Rightarrow> 'a \<Rightarrow> ('a, 'w) runtime \<Rightarrow> ('a, 'w) runtime" where
  "later func a s =
     (let s1 = clearTimeout (timeout s) s
      in s1\<lparr>world := func a (clock s1) (world s1)\<rparr>)"

definition executedFunction :: "nat \<Rightarrow> 'a \<Rightarrow> ('a, 'w) runtime \<Rightarrow> ('a, 'w) runtime" where
  "executedFunction wait a s =
     (let s1 = clearTimeout (timeout s) s;
          (h, s2) = setTimeout a wait s1
      in s2\<lparr>timeout := Some h\<rparr>)"

text \<open>
  The event loop lets \<open>n\<close> milliseconds pass: the timeouts due by then run in the order of
  their due times (scheduling order among equals), each at its due time and only if no
  earlier callback has cleared it. No callback of this program schedules a timeout, so the
  timeouts pending at the start are all there are.
\<close>

definition fire :: "('a \<Rightarrow> nat \<Rightarrow> 'w \<Rightarrow> 'w) \<Rightarrow> 'a timer \<Rightarrow> ('a, 'w) runtime \<Rightarrow> ('a, 'w) runtime" where
  "fire func t s =
     (if t \<in> set (timers s)
      then later func (args t) (s\<lparr>clock := max (clock s) (due t), timers := remove1 t (timers s)\<rparr>)
      else s)"

definition elapse :: "('a \<Rightarrow> nat \<Rightarrow> 'w \<Rightarrow> 'w) \<Rightarrow> nat \<Rightarrow> ('a, 'w) runtime \<Rightarrow> ('a, 'w) runtime" where
  "elapse func n s =
     (let T = clock s + n;
          ready = sort_key due (filter (\<lambda>t. due t \<le> T) (timers s))
      in (fold (fire func) ready s)\<lparr>clock := T\<rparr>)"

text \<open>
  The function handed to \<^verbatim>\<open>debounce\<close> in \<open>debouncedSaveCurrentProfile\<close>: it stamps the
  profile and writes it to the current-profile item, as \<open>saveCurrentProfile\<close> does.
  \<open>toISOString\<close> renders the time of the call as \<^verbatim>\<open>new Date().toISOString()\<close> does.
\<close>

definition debouncedSaveCurrentProfile_func ::
  "'v medium \<Rightarrow> (nat \<Rightarrow> timestamp) \<Rightarrow> 'v ConfigurationProfile \<Rightarrow> nat \<Rightarrow> 'v localStorage
     \<Rightarrow> 'v localStorage"
where
  "debouncedSaveCurrentProfile_func md toISOString profile t ls =
     (let updatedProfile = profile\<lparr>updatedAt := toISOString t\<rparr> in
      case setItem_config md (JSON_stringify updatedProfile) ls of
        Inl msg \<Rightarrow> ls
      | Inr ls' \<Rightarrow> ls')"

definition autoSaveCurrentProfile ::
  "'v ConfigurationProfile \<Rightarrow> ('v ConfigurationProfile, 'v localStorage) runtime
     \<Rightarrow> ('v ConfigurationProfile, 'v localStorage) runtime"
where
  "autoSaveCurrentProfile profile s = executedFunction 5000 profile s"

text \<open>
  A run of the coalescer after a first invocation: each further invocation comes \<open>gap\<close>
  milliseconds after the one before it.
\<close>

definition invocations ::
  "'v medium \<Rightarrow> (nat \<Rightarrow> timestamp) \<Rightarrow> (nat \<times> 'v ConfigurationProfile) list
     \<Rightarrow> ('v ConfigurationProfile, 'v localStorage) runtime
     \<Rightarrow> ('v ConfigurationProfile, 'v localStorage) runtime"
where
  "invocations md toISOString calls s =
     fold (\<lambda>(gap, profile) s'.
             autoSaveCurrentProfile profile (elapse (debouncedSaveCurrentProfile_func md toISOString) gap s'))
          calls s"

text \<open>
  The coalescer is armed when the only pending timeout is the one whose handle the variable
  \<open>timeout\<close> holds: it has \<open>r\<close> milliseconds left to run and has captured \<open>a\<close>.
\<close>

definition armed :: "nat \<Rightarrow> 'a \<Rightarrow> ('a, 'w) runtime \<Rightarrow> bool" where
  "armed r a s \<longleftrightarrow>
     (\<exists>h. timers s = [\<lparr>handle = h, due = clock s + r, args = a\<rparr>] \<and> timeout s = Some h)"

section \<open>Example data\<close>

text \<open>The profile and the empty store that the repository's unit tests start from.\<close>

definition profileA :: "string ConfigurationProfile" where
  "profileA = \<lparr> id' = ''test-id'', name = ''Test Profile'',
                settings = [''theme'' \<mapsto> ''dark'', ''language'' \<mapsto> ''en''],
                createdAt = ''2023-01-01T00:00:00Z'', updatedAt = ''2023-01-01T00:00:00Z'',
                version = 1 \<rparr>"

definition emptyStorage :: "'v localStorage" where
  "emptyStorage = \<lparr> CONFIG_STORAGE_KEY = None, PROFILES_STORAGE_KEY = None, journal = [] \<rparr>"

definition profileB :: "string ConfigurationProfile" where
  "profileB = \<lparr> id' = ''profile2'', name = ''Profile 2'',
                settings = [''theme'' \<mapsto> ''light''],
                createdAt = ''2023-01-01T00:00:00Z'', updatedAt = ''2023-01-01T00:00:00Z'',
                version = 1 \<rparr>"

definition stateAB :: "string ConfigurationState" where
  "stateAB = \<lparr> currentProfile = Some profileA, profiles = [profileA, profileB],
               loading = True, error = None \<rparr>"

definition storageAB :: "string localStorage" where
  "storageAB = \<lparr> CONFIG_STORAGE_KEY = Some (Serialized profileA),
                 PROFILES_STORAGE_KEY = Some (Serialized [profileA, profileB]),
                 journal = [] \<rparr>"

definition themeLight :: "string ConfigurationUpdate" where
  "themeLight = \<lparr> settings_upd = Some [''theme'' \<mapsto> ''light''], name_upd = None \<rparr>"

text \<open>
  A request, the storage that a first \<open>createProfile\<close> leaves on the empty store, and the
  profile that call returns.
\<close>

definition requestWork :: NewProfileRequest where
  "requestWork = \<lparr> name_req = ''Work'', copyFromCurrent = Some True \<rparr>"

definition storageFirst :: "string localStorage" where
  "storageFirst =
     snd (createProfile unbounded 1700000000000 ''k3j9x2m1q'' ''2023-11-14T22:13:20.000Z''
            ''2023-11-14T22:13:20.000Z'' requestWork emptyStorage)"

definition firstProfile :: "string ConfigurationProfile" where
  "firstProfile = \<lparr> id' = ''profile_1700000000000_k3j9x2m1q'', name = ''Work'',
                    settings = Map.empty,
                    createdAt = ''2023-11-14T22:13:20.000Z'',
                    updatedAt = ''2023-11-14T22:13:20.000Z'', version = 1 \<rparr>"

text \<open>
  A rendering of the clock for the examples, the runtime before any invocation, and the two
  later arguments of the debounce test.
\<close>

definition clockText :: "nat \<Rightarrow> timestamp" where
  "clockText t = decimal t @ ''ms''"

definition idle :: "(string ConfigurationProfile, string localStorage) runtime" where
  "idle = \<lparr> clock = 0, timers = [], next_handle = 0, timeout = None, world = emptyStorage \<rparr>"

definition profileLight :: "string ConfigurationProfile" where
  "profileLight = profileA\<lparr>settings := [''theme'' \<mapsto> ''light'']\<rparr>"

definition profileAuto :: "string ConfigurationProfile" where
  "profileAuto = profileA\<lparr>settings := [''theme'' \<mapsto> ''auto'']\<rparr>"

text \<open>
  A second update, and storages as text of any shape: nothing stored, both items garbled,
  and a list item whose text is the JSON object \<^verbatim>\<open>{"corrupt": true}\<close>.
\<close>

definition languageFr :: "string ConfigurationUpdate" where
  "languageFr = \<lparr> settings_upd = Some [''language'' \<mapsto> ''fr''], name_upd = None \<rparr>"

definition vacantStorage :: "int anyStorage" where
  "vacantStorage = \<lparr> CONFIG_STORAGE_TEXT = None, PROFILES_STORAGE_TEXT = None \<rparr>"

definition garbledStorage :: "int anyStorage" where
  "garbledStorage =
     \<lparr> CONFIG_STORAGE_TEXT = Some (Malformed ''{not json''),
       PROFILES_STORAGE_TEXT = Some (Malformed ''[1,'') \<rparr>"

definition listSlotObject :: "int anyStorage" where
  "listSlotObject =
     \<lparr> CONFIG_STORAGE_TEXT = None,
       PROFILES_STORAGE_TEXT = Some (Serialized (JObj [(''corrupt'', JBool True)])) \<rparr>"

section \<open>Facts about the raw store operations\<close>

lemma saveCurrentProfile_unbounded:
  "saveCurrentProfile unbounded now p ls =
     (Inr (), ls\<lparr>CONFIG_STORAGE_KEY := Some (Serialized (p\<lparr>updatedAt := now\<rparr>)),
                 journal := journal ls @ [SetConfig (Serialized (p\<lparr>updatedAt := now\<rparr>))]\<rparr>)"
  by (simp add: saveCurrentProfile_def setItem_config_def unbounded_def JSON_stringify_def Let_def)

lemma saveCurrentProfile_returns:
  assumes "fst (saveCurrentProfile md now p ls) = Inr u"
  shows "snd (saveCurrentProfile md now p ls) =
           ls\<lparr>CONFIG_STORAGE_KEY := Some (Serialized (p\<lparr>updatedAt := now\<rparr>)),
              journal := journal ls @ [SetConfig (Serialized (p\<lparr>updatedAt := now\<rparr>))]\<rparr>"
  using assms
  by (auto simp: saveCurrentProfile_def setItem_config_def JSON_stringify_def Let_def
           split: option.splits)

lemma JSON_parse_Inl: "JSON_parse d = Inl e \<Longrightarrow> \<exists>s. d = Malformed s"
  by (cases d) auto

lemma loadCurrentProfile_cases:
  "loadCurrentProfile ls =
     (case CONFIG_STORAGE_KEY ls of Some (Serialized p) \<Rightarrow> Some p | _ \<Rightarrow> None)"
  by (simp add: loadCurrentProfile_def split: option.splits json_text.splits)

lemma loadProfiles_cases:
  "loadProfiles ls =
     (case PROFILES_STORAGE_KEY ls of Some (Serialized ps) \<Rightarrow> ps | _ \<Rightarrow> [])"
  by (simp add: loadProfiles_def split: option.splits json_text.splits)

lemma saveProfiles_unbounded:
  "saveProfiles unbounded ps ls =
     (Inr (), ls\<lparr>PROFILES_STORAGE_KEY := Some (Serialized ps),
                 journal := journal ls @ [SetProfiles (Serialized ps)]\<rparr>)"
  by (simp add: saveProfiles_def setItem_profiles_def unbounded_def JSON_stringify_def)

lemma saveProfiles_result:
  "saveProfiles md ps ls = (r, ls1) \<Longrightarrow>
     (\<exists>e. r = Inl e \<and> ls1 = ls)
     \<or> (r = Inr () \<and> ls1 = ls\<lparr>PROFILES_STORAGE_KEY := Some (Serialized ps),
                                journal := journal ls @ [SetProfiles (Serialized ps)]\<rparr>)"
  by (auto simp: saveProfiles_def setItem_profiles_def JSON_stringify_def split: option.splits)

lemma saveCurrentProfile_result:
  "saveCurrentProfile md now p ls = (r, ls1) \<Longrightarrow>
     (\<exists>e. r = Inl e \<and> ls1 = ls)
     \<or> (r = Inr () \<and> ls1 = ls\<lparr>CONFIG_STORAGE_KEY := Some (Serialized (p\<lparr>updatedAt := now\<rparr>)),
                                journal := journal ls @ [SetConfig (Serialized (p\<lparr>updatedAt := now\<rparr>))]\<rparr>)"
  by (auto simp: saveCurrentProfile_def setItem_config_def JSON_stringify_def Let_def
           split: option.splits)

lemma findIndex_None_iff: "findIndex P xs = None \<longleftrightarrow> (\<forall>x \<in> set xs. \<not> P x)"
  by (induction xs) auto

lemma findIndex_Some:
  "findIndex P xs = Some i \<Longrightarrow> i < length xs \<and> P (xs ! i) \<and> (\<forall>j < i. \<not> P (xs ! j))"
proof (induction xs arbitrary: i)
  case Nil
  then show ?case by simp
next
  case (Cons x xs)
  show ?case
  proof (cases "P x")
    case True
    with Cons.prems show ?thesis by simp
  next
    case False
    with Cons.prems obtain k where k: "findIndex P xs = Some k" "i = Suc k" by auto
    from Cons.IH [OF k(1)] False k(2) show ?thesis
      by (auto simp: less_Suc_eq_0_disj)
  qed
qed

lemma findIndex_first:
  "i < length xs \<Longrightarrow> P (xs ! i) \<Longrightarrow> (\<forall>j < i. \<not> P (xs ! j)) \<Longrightarrow> findIndex P xs = Some i"
proof (induction xs arbitrary: i)
  case Nil
  then show ?case by simp
next
  case (Cons x xs)
  show ?case
  proof (cases i)
    case 0
    with Cons.prems show ?thesis by simp
  next
    case (Suc k)
    with Cons.prems have "\<not> P x" by auto
    moreover from Suc Cons.prems have "findIndex P xs = Some k"
      by (intro Cons.IH) auto
    ultimately show ?thesis using Suc by simp
  qed
qed

lemma findIndex_id_None: 
  "findIndex (\<lambda>p. id' p = pid) ps = None \<longleftrightarrow> pid \<notin> id' ` set ps"
  by (auto simp: findIndex_None_iff)

lemma findIndex_present:
  assumes "pid \<in> id' ` set ps"
  obtains i where "findIndex (\<lambda>p. id' p = pid) ps = Some i"
  using assms findIndex_id_None [of pid ps]
  by (cases "findIndex (\<lambda>p. id' p = pid) ps") auto

lemma loadProfiles_after_write [simp]:
  "loadProfiles (ls\<lparr>PROFILES_STORAGE_KEY := Some (Serialized ps)\<rparr>) = ps"
  "loadProfiles (ls\<lparr>CONFIG_STORAGE_KEY := c\<rparr>) = loadProfiles ls"
  "loadProfiles (ls\<lparr>journal := j\<rparr>) = loadProfiles ls"
  by (simp_all add: loadProfiles_def)

lemma loadCurrentProfile_after_write [simp]:
  "loadCurrentProfile (ls\<lparr>CONFIG_STORAGE_KEY := Some (Serialized p)\<rparr>) = Some p"
  "loadCurrentProfile (ls\<lparr>CONFIG_STORAGE_KEY := None\<rparr>) = None"
  "loadCurrentProfile (ls\<lparr>PROFILES_STORAGE_KEY := x\<rparr>) = loadCurrentProfile ls"
  "loadCurrentProfile (ls\<lparr>journal := j\<rparr>) = loadCurrentProfile ls"
  by (simp_all add: loadCurrentProfile_def)

section \<open>Save and load of the current profile\<close>

text \<open>
  Claim C2. Whenever \<open>saveCurrentProfile\<close> returns normally, \<open>loadCurrentProfile\<close> on the
  storage it leaves returns the saved profile with \<open>updatedAt\<close> set to the clock value read
  by the save and with every other field (id, name, settings, createdAt, version) as it was
  in the argument. On a medium that accepts every write the save does return normally.
\<close>

theorem save_then_load_roundtrip:
  "(fst (saveCurrentProfile md now p ls) = Inr () \<longrightarrow>
      (\<exists>q. loadCurrentProfile (snd (saveCurrentProfile md now p ls)) = Some q
          \<and> q = p\<lparr>updatedAt := now\<rparr>
          \<and> updatedAt q = now \<and> id' q = id' p \<and> name q = name p \<and> settings q = settings p
          \<and> createdAt q = createdAt p \<and> version q = version p))
   \<and> fst (saveCurrentProfile unbounded now p ls) = Inr ()"
  by (auto simp: saveCurrentProfile_returns saveCurrentProfile_unbounded loadCurrentProfile_def)

theorem save_then_load_roundtrip_witness:
  "fst (saveCurrentProfile unbounded ''2024-05-05T10:00:00.000Z'' profileA emptyStorage) = Inr ()
   \<and> loadCurrentProfile (snd (saveCurrentProfile unbounded ''2024-05-05T10:00:00.000Z'' profileA emptyStorage))
       = Some (profileA\<lparr>updatedAt := ''2024-05-05T10:00:00.000Z''\<rparr>)"
  using save_then_load_roundtrip [of unbounded "''2024-05-05T10:00:00.000Z''" profileA emptyStorage]
  by simp

section \<open>deleteProfile\<close>

lemma deleteProfile_absent:
  assumes "pid \<notin> id' ` set (loadProfiles ls)"
  shows "deleteProfile md now pid ls = (Inr False, ls)"
  using assms by (simp add: deleteProfile_def findIndex_id_None [symmetric])

lemma deleteProfile_present:
  assumes "pid \<in> id' ` set (loadProfiles ls)"
    and "\<not> isl (fst (deleteProfile md now pid ls))"
  shows "fst (deleteProfile md now pid ls) = Inr True"
    and "loadProfiles (snd (deleteProfile md now pid ls))
           = filter (\<lambda>p. id' p \<noteq> pid) (loadProfiles ls)"
    and "\<exists>more. journal (snd (deleteProfile md now pid ls))
           = journal ls @ SetProfiles (JSON_stringify (filter (\<lambda>p. id' p \<noteq> pid) (loadProfiles ls))) # more"
    and "(case loadCurrentProfile ls of
            None \<Rightarrow> CONFIG_STORAGE_KEY (snd (deleteProfile md now pid ls)) = CONFIG_STORAGE_KEY ls
          | Some cur \<Rightarrow>
              if id' cur = pid
              then (case filter (\<lambda>p. id' p \<noteq> pid) (loadProfiles ls) of
                      p0 # rest \<Rightarrow>
                        loadCurrentProfile (snd (deleteProfile md now pid ls))
                          = Some (p0\<lparr>updatedAt := now\<rparr>)
                    | [] \<Rightarrow> CONFIG_STORAGE_KEY (snd (deleteProfile md now pid ls)) = None)
              else CONFIG_STORAGE_KEY (snd (deleteProfile md now pid ls)) = CONFIG_STORAGE_KEY ls)"
proof -
  from assms(1) obtain i where i: "findIndex (\<lambda>p. id' p = pid) (loadProfiles ls) = Some i"
    by (rule findIndex_present)
  let ?rem = "filter (\<lambda>p. id' p \<noteq> pid) (loadProfiles ls)"
  let ?goal = "fst (deleteProfile md now pid ls) = Inr True
    \<and> loadProfiles (snd (deleteProfile md now pid ls)) = ?rem
    \<and> (\<exists>more. journal (snd (deleteProfile md now pid ls))
           = journal ls @ SetProfiles (JSON_stringify ?rem) # more)
    \<and> (case loadCurrentProfile ls of
            None \<Rightarrow> CONFIG_STORAGE_KEY (snd (deleteProfile md now pid ls)) = CONFIG_STORAGE_KEY ls
          | Some cur \<Rightarrow>
              if id' cur = pid
              then (case ?rem of
                      p0 # rest \<Rightarrow>
                        loadCurrentProfile (snd (deleteProfile md now pid ls))
                          = Some (p0\<lparr>updatedAt := now\<rparr>)
                    | [] \<Rightarrow> CONFIG_STORAGE_KEY (snd (deleteProfile md now pid ls)) = None)
              else CONFIG_STORAGE_KEY (snd (deleteProfile md now pid ls)) = CONFIG_STORAGE_KEY ls)"
  obtain r1 ls1 where s1: "saveProfiles md ?rem ls = (r1, ls1)"
    by (cases "saveProfiles md ?rem ls")
  from saveProfiles_result [OF s1] assms(2) i s1
  have r1: "r1 = Inr ()"
    and ls1: "ls1 = ls\<lparr>PROFILES_STORAGE_KEY := Some (Serialized ?rem),
                       journal := journal ls @ [SetProfiles (Serialized ?rem)]\<rparr>"
    by (auto simp: deleteProfile_def Let_def)
  have ?goal
  proof (cases "loadCurrentProfile ls")
    case None
    with i s1 r1 ls1 show ?thesis
      by (simp add: deleteProfile_def Let_def JSON_stringify_def)
  next
    case (Some cur)
    show ?thesis
    proof (cases "id' cur = pid")
      case False
      with Some i s1 r1 ls1 show ?thesis
        by (simp add: deleteProfile_def Let_def JSON_stringify_def)
    next
      case True
      show ?thesis
      proof (cases ?rem)
        case Nil
        with True Some i s1 r1 ls1 show ?thesis
          by (simp add: deleteProfile_def Let_def removeItem_config_def JSON_stringify_def)
      next
        case (Cons p0 rest)
        obtain r2 ls2 where s2: "saveCurrentProfile md now p0 ls1 = (r2, ls2)"
          by (cases "saveCurrentProfile md now p0 ls1")
        from assms(2) Cons True Some i s1 r1 ls1 s2 have "\<not> isl r2"
          by (cases r2) (auto simp: deleteProfile_def Let_def)
        with saveCurrentProfile_result [OF s2] 
        have "r2 = Inr ()" "ls2 = ls1\<lparr>CONFIG_STORAGE_KEY := Some (Serialized (p0\<lparr>updatedAt := now\<rparr>)),
                                journal := journal ls1 @ [SetConfig (Serialized (p0\<lparr>updatedAt := now\<rparr>))]\<rparr>"
          by auto
        with Cons True Some i s1 r1 ls1 s2 show ?thesis
          by (simp add: deleteProfile_def Let_def JSON_stringify_def)
      qed
    qed
  qed
  then show "fst (deleteProfile md now pid ls) = Inr True"
    and "loadProfiles (snd (deleteProfile md now pid ls)) = ?rem"
    and "\<exists>more. journal (snd (deleteProfile md now pid ls))
           = journal ls @ SetProfiles (JSON_stringify ?rem) # more"
    and "(case loadCurrentProfile ls of
            None \<Rightarrow> CONFIG_STORAGE_KEY (snd (deleteProfile md now pid ls)) = CONFIG_STORAGE_KEY ls
          | Some cur \<Rightarrow>
              if id' cur = pid
              then (case ?rem of
                      p0 # rest \<Rightarrow>
                        loadCurrentProfile (snd (deleteProfile md now pid ls))
                          = Some (p0\<lparr>updatedAt := now\<rparr>)
                    | [] \<Rightarrow> CONFIG_STORAGE_KEY (snd (deleteProfile md now pid ls)) = None)
              else CONFIG_STORAGE_KEY (snd (deleteProfile md now pid ls)) = CONFIG_STORAGE_KEY ls)"
    by blast+
qed

lemma deleteProfile_unbounded:
  assumes "pid \<in> id' ` set (loadProfiles ls)"
  shows "fst (deleteProfile unbounded now pid ls) = Inr True"
proof -
  from assms obtain i where i: "findIndex (\<lambda>p. id' p = pid) (loadProfiles ls) = Some i"
    by (rule findIndex_present)
  show ?thesis
    by (simp add: deleteProfile_def i saveProfiles_unbounded saveCurrentProfile_unbounded
        Let_def removeItem_config_def split: option.splits list.splits)
qed

text \<open>
  Claim C3. When no entry of the stored list has the id, \<open>deleteProfile\<close> returns
  \<open>false\<close> and leaves the storage as it is. When some entry has it and the call does not
  throw, it returns \<open>true\<close>, the stored list is the old one without the entries of that
  id, and the first write of the call is that list. If the current-profile item decoded to
  a profile of that id, the item then holds the first remaining entry of the list (stamped
  with the clock value of the write) when one remains, and is removed when none remains;
  otherwise the item is untouched. On a medium that accepts every write the call does not
  throw.
\<close>

theorem deleteProfile_behaviour:
  "(pid \<notin> id' ` set (loadProfiles ls) \<longrightarrow> deleteProfile md now pid ls = (Inr False, ls))
   \<and> (pid \<in> id' ` set (loadProfiles ls) \<and> \<not> isl (fst (deleteProfile md now pid ls)) \<longrightarrow>
        fst (deleteProfile md now pid ls) = Inr True
        \<and> loadProfiles (snd (deleteProfile md now pid ls))
            = filter (\<lambda>p. id' p \<noteq> pid) (loadProfiles ls)
        \<and> (\<exists>more. journal (snd (deleteProfile md now pid ls))
              = journal ls
                @ SetProfiles (JSON_stringify (filter (\<lambda>p. id' p \<noteq> pid) (loadProfiles ls))) # more)
        \<and> (case loadCurrentProfile ls of
              None \<Rightarrow> CONFIG_STORAGE_KEY (snd (deleteProfile md now pid ls)) = CONFIG_STORAGE_KEY ls
            | Some cur \<Rightarrow>
                if id' cur = pid
                then (case filter (\<lambda>p. id' p \<noteq> pid) (loadProfiles ls) of
                        p0 # rest \<Rightarrow>
                          loadCurrentProfile (snd (deleteProfile md now pid ls))
                            = Some (p0\<lparr>updatedAt := now\<rparr>)
                      | [] \<Rightarrow> CONFIG_STORAGE_KEY (snd (deleteProfile md now pid ls)) = None)
                else CONFIG_STORAGE_KEY (snd (deleteProfile md now pid ls)) = CONFIG_STORAGE_KEY ls))
   \<and> (pid \<in> id' ` set (loadProfiles ls) \<longrightarrow> fst (deleteProfile unbounded now pid ls) = Inr True)"
  using deleteProfile_absent [of pid ls md now] deleteProfile_present [of pid ls md now]
    deleteProfile_unbounded [of pid ls now]
  by blast

lemma deleteProfile_storageAB:
  "deleteProfile unbounded ''T1'' ''test-id'' storageAB =
     (Inr True, \<lparr> CONFIG_STORAGE_KEY = Some (Serialized (profileB\<lparr>updatedAt := ''T1''\<rparr>)),
                 PROFILES_STORAGE_KEY = Some (Serialized [profileB]),
                 journal = [SetProfiles (Serialized [profileB]),
                            SetConfig (Serialized (profileB\<lparr>updatedAt := ''T1''\<rparr>))] \<rparr>)"
  by (simp add: deleteProfile_def storageAB_def loadProfiles_def loadCurrentProfile_def
      profileA_def profileB_def saveProfiles_unbounded saveCurrentProfile_unbounded Let_def)

theorem deleteProfile_behaviour_witness:
  "''test-id'' \<in> id' ` set (loadProfiles storageAB)
   \<and> fst (deleteProfile unbounded ''T1'' ''test-id'' storageAB) = Inr True
   \<and> loadProfiles (snd (deleteProfile unbounded ''T1'' ''test-id'' storageAB)) = [profileB]
   \<and> loadCurrentProfile (snd (deleteProfile unbounded ''T1'' ''test-id'' storageAB))
       = Some (profileB\<lparr>updatedAt := ''T1''\<rparr>)
   \<and> ''missing'' \<notin> id' ` set (loadProfiles storageAB)
   \<and> deleteProfile unbounded ''T1'' ''missing'' storageAB = (Inr False, storageAB)"
  using deleteProfile_behaviour [of "''test-id''" storageAB unbounded "''T1''"]
        deleteProfile_behaviour [of "''missing''" storageAB unbounded "''T1''"]
  by (simp add: deleteProfile_storageAB)
     (simp add: storageAB_def loadProfiles_def loadCurrentProfile_def profileA_def profileB_def)

section \<open>updateProfile\<close>

lemma updateProfile_absent:
  assumes "pid \<notin> id' ` set (loadProfiles ls)"
  shows "updateProfile md now now2 pid upd ls = (Inr None, ls)"
  using assms by (simp add: updateProfile_def findIndex_id_None [symmetric])

lemma updateProfile_present:
  assumes i: "findIndex (\<lambda>p. id' p = pid) (loadProfiles ls) = Some i"
    and ok: "\<not> isl (fst (updateProfile md now now2 pid upd ls))"
  shows "fst (updateProfile md now now2 pid upd ls)
           = Inr (Some (updatedProfile now upd (loadProfiles ls ! i)))
       \<and> loadProfiles (snd (updateProfile md now now2 pid upd ls))
           = (loadProfiles ls)[i := updatedProfile now upd (loadProfiles ls ! i)]
       \<and> (case loadCurrentProfile ls of
            None \<Rightarrow> CONFIG_STORAGE_KEY (snd (updateProfile md now now2 pid upd ls)) = CONFIG_STORAGE_KEY ls
          | Some cur \<Rightarrow>
              if id' cur = pid
              then loadCurrentProfile (snd (updateProfile md now now2 pid upd ls))
                     = Some ((updatedProfile now upd (loadProfiles ls ! i))\<lparr>updatedAt := now2\<rparr>)
              else CONFIG_STORAGE_KEY (snd (updateProfile md now now2 pid upd ls)) = CONFIG_STORAGE_KEY ls)"
proof -
  let ?m = "updatedProfile now upd (loadProfiles ls ! i)"
  let ?ps' = "(loadProfiles ls)[i := ?m]"
  obtain r1 ls1 where s1: "saveProfiles md ?ps' ls = (r1, ls1)"
    by (cases "saveProfiles md ?ps' ls")
  from ok i s1 have "\<not> isl r1"
    by (cases r1) (auto simp: updateProfile_def Let_def)
  with saveProfiles_result [OF s1]
  have r1: "r1 = Inr ()"
    and ls1: "ls1 = ls\<lparr>PROFILES_STORAGE_KEY := Some (Serialized ?ps'),
                       journal := journal ls @ [SetProfiles (Serialized ?ps')]\<rparr>"
    by auto
  show ?thesis
  proof (cases "loadCurrentProfile ls")
    case None
    with i s1 r1 ls1 show ?thesis
      by (simp add: updateProfile_def Let_def)
  next
    case (Some cur)
    show ?thesis
    proof (cases "id' cur = pid")
      case False
      with Some i s1 r1 ls1 show ?thesis
        by (simp add: updateProfile_def Let_def)
    next
      case True
      obtain r2 ls2 where s2: "saveCurrentProfile md now2 ?m ls1 = (r2, ls2)"
        by (cases "saveCurrentProfile md now2 ?m ls1")
      from ok True Some i s1 r1 ls1 s2 have "\<not> isl r2"
        by (cases r2) (auto simp: updateProfile_def Let_def)
      with saveCurrentProfile_result [OF s2]
      have "r2 = Inr ()"
        "ls2 = ls1\<lparr>CONFIG_STORAGE_KEY := Some (Serialized (?m\<lparr>updatedAt := now2\<rparr>)),
                   journal := journal ls1 @ [SetConfig (Serialized (?m\<lparr>updatedAt := now2\<rparr>))]\<rparr>"
        by auto
      with True Some i s1 r1 ls1 s2 show ?thesis
        by (simp add: updateProfile_def Let_def)
    qed
  qed
qed

lemma updateProfile_unbounded:
  "\<not> isl (fst (updateProfile unbounded now now2 pid upd ls))"
  by (simp add: updateProfile_def saveProfiles_unbounded saveCurrentProfile_unbounded Let_def
      split: option.splits)

lemma updateProfile_storageAB:
  "updateProfile unbounded t1 t2 ''test-id'' themeLight storageAB =
     (Inr (Some (profileA\<lparr>updatedAt := t1, settings := (settings profileA)(''theme'' \<mapsto> ''light'')\<rparr>)),
      \<lparr> CONFIG_STORAGE_KEY = Some (Serialized (profileA\<lparr>updatedAt := t2,
                          settings := (settings profileA)(''theme'' \<mapsto> ''light'')\<rparr>)),
        PROFILES_STORAGE_KEY = Some (Serialized [profileA\<lparr>updatedAt := t1,
                          settings := (settings profileA)(''theme'' \<mapsto> ''light'')\<rparr>, profileB]),
        journal = [SetProfiles (Serialized [profileA\<lparr>updatedAt := t1,
                          settings := (settings profileA)(''theme'' \<mapsto> ''light'')\<rparr>, profileB]),
                   SetConfig (Serialized (profileA\<lparr>updatedAt := t2,
                          settings := (settings profileA)(''theme'' \<mapsto> ''light'')\<rparr>))] \<rparr>)"
proof -
  have i: "findIndex (\<lambda>p. id' p = ''test-id'') [profileA, profileB] = Some 0"
    by (simp add: profileA_def)
  have m: "updatedProfile t themeLight profileA
             = profileA\<lparr>updatedAt := t, settings := (settings profileA)(''theme'' \<mapsto> ''light'')\<rparr>" for t
    by (simp add: updatedProfile_def themeLight_def)
  have c: "id' profileA = ''test-id''"
    by (simp add: profileA_def)
  show ?thesis
    by (simp add: updateProfile_def storageAB_def loadProfiles_def loadCurrentProfile_def
      saveProfiles_unbounded saveCurrentProfile_unbounded Let_def i m c)
qed

lemma updateProfile_storageAB_list:
  "loadProfiles (snd (updateProfile unbounded t1 t2 ''test-id'' themeLight storageAB))
     = [profileA\<lparr>updatedAt := t1, settings := (settings profileA)(''theme'' \<mapsto> ''light'')\<rparr>, profileB]"
  by (simp add: updateProfile_storageAB loadProfiles_def)

lemma updateProfile_storageAB_slot:
  "loadCurrentProfile (snd (updateProfile unbounded t1 t2 ''test-id'' themeLight storageAB))
     = Some (profileA\<lparr>updatedAt := t2, settings := (settings profileA)(''theme'' \<mapsto> ''light'')\<rparr>)"
  by (simp add: updateProfile_storageAB loadCurrentProfile_def)

lemma updateProfile_storageAB_result:
  "fst (updateProfile unbounded t1 t2 ''test-id'' themeLight storageAB)
     = Inr (Some (profileA\<lparr>updatedAt := t1, settings := (settings profileA)(''theme'' \<mapsto> ''light'')\<rparr>))"
  by (simp add: updateProfile_storageAB)

lemma loadCurrentProfile_storageAB:
  "loadCurrentProfile storageAB = Some profileA"
  by (simp add: storageAB_def loadCurrentProfile_def)

lemma updatedAt_differs:
  "p\<lparr>updatedAt := ''2024-01-01T00:00:00.001Z''\<rparr> \<noteq> p\<lparr>updatedAt := ''2024-01-01T00:00:00.000Z''\<rparr>"
proof
  assume "p\<lparr>updatedAt := ''2024-01-01T00:00:00.001Z''\<rparr> = p\<lparr>updatedAt := ''2024-01-01T00:00:00.000Z''\<rparr>"
  then have "updatedAt (p\<lparr>updatedAt := ''2024-01-01T00:00:00.001Z''\<rparr>)
           = updatedAt (p\<lparr>updatedAt := ''2024-01-01T00:00:00.000Z''\<rparr>)"
    by (rule arg_cong)
  then show False by simp
qed

lemma updateProfile_missing_storageAB:
  "''missing'' \<notin> id' ` set (loadProfiles storageAB)"
  by (simp add: storageAB_def loadProfiles_def profileA_def profileB_def)

lemma findIndex_storageAB:
  "findIndex (\<lambda>p. id' p = ''test-id'') (loadProfiles storageAB) = Some 0"
  by (simp add: storageAB_def loadProfiles_def profileA_def profileB_def)

lemma themeLight_settings: "settings_upd themeLight = Some [''theme'' \<mapsto> ''light'']"
  by (simp add: themeLight_def)

lemma updatedProfile_id: "id' (updatedProfile now upd old) = id' old"
  by (simp add: updatedProfile_def)

lemma loadProfiles_storageAB: "loadProfiles storageAB = [profileA, profileB]"
  by (simp add: storageAB_def loadProfiles_def)

lemma findIndex_storageAB_second:
  "findIndex (\<lambda>p. id' p = ''profile2'') (loadProfiles storageAB) = Some 1"
  by (simp add: storageAB_def loadProfiles_def profileA_def profileB_def)

lemma updateProfile_storageAB_second:
  "fst (updateProfile unbounded t1 t2 ''profile2'' languageFr storageAB)
     = Inr (Some (profileB\<lparr>updatedAt := t1, settings := (settings profileB)(''language'' \<mapsto> ''fr'')\<rparr>))"
  "loadProfiles (snd (updateProfile unbounded t1 t2 ''profile2'' languageFr storageAB))
     = [profileA, profileB\<lparr>updatedAt := t1, settings := (settings profileB)(''language'' \<mapsto> ''fr'')\<rparr>]"
  "loadCurrentProfile (snd (updateProfile unbounded t1 t2 ''profile2'' languageFr storageAB))
     = Some profileA"
proof -
  have i: "findIndex (\<lambda>p. id' p = ''profile2'') [profileA, profileB] = Some 1"
    by (simp add: profileA_def profileB_def)
  have m: "updatedProfile t languageFr profileB
             = profileB\<lparr>updatedAt := t, settings := (settings profileB)(''language'' \<mapsto> ''fr'')\<rparr>" for t
    by (simp add: updatedProfile_def languageFr_def)
  have c: "id' profileA \<noteq> ''profile2''"
    by (simp add: profileA_def)
  have d: "id' profileB = ''profile2''"
    by (simp add: profileB_def)
  have e: "updateProfile unbounded t1 t2 ''profile2'' languageFr storageAB
     = (Inr (Some (profileB\<lparr>updatedAt := t1, settings := (settings profileB)(''language'' \<mapsto> ''fr'')\<rparr>)),
        storageAB\<lparr>PROFILES_STORAGE_KEY := Some (Serialized [profileA,
              profileB\<lparr>updatedAt := t1, settings := (settings profileB)(''language'' \<mapsto> ''fr'')\<rparr>]),
           journal := journal storageAB @ [SetProfiles (Serialized [profileA,
              profileB\<lparr>updatedAt := t1, settings := (settings profileB)(''language'' \<mapsto> ''fr'')\<rparr>])]\<rparr>)"
    by (simp add: updateProfile_def loadProfiles_storageAB loadCurrentProfile_storageAB
        saveProfiles_unbounded Let_def i m c d)
  show "fst (updateProfile unbounded t1 t2 ''profile2'' languageFr storageAB)
     = Inr (Some (profileB\<lparr>updatedAt := t1, settings := (settings profileB)(''language'' \<mapsto> ''fr'')\<rparr>))"
    by (simp add: e)
  show "loadProfiles (snd (updateProfile unbounded t1 t2 ''profile2'' languageFr storageAB))
     = [profileA, profileB\<lparr>updatedAt := t1, settings := (settings profileB)(''language'' \<mapsto> ''fr'')\<rparr>]"
    by (simp add: e)
  show "loadCurrentProfile (snd (updateProfile unbounded t1 t2 ''profile2'' languageFr storageAB))
     = Some profileA"
    by (simp add: e loadCurrentProfile_storageAB)
qed

lemma languageFr_settings: "settings_upd languageFr = Some [''language'' \<mapsto> ''fr'']"
  by (simp add: languageFr_def)

text \<open>
  Claim C5. When no entry of the stored list has the id, \<open>updateProfile\<close> returns \<open>null\<close>
  and leaves the storage as it is. The entry the code looks up is the first entry of the
  list that has the id: its index \<open>i\<close> is in range, the entry at \<open>i\<close> has the id and no
  entry before it has. When the update carries a settings bag \<open>s\<close> and the call does not
  throw, it returns the merged profile, which has the same id, and the stored list is the
  old one with that profile at index \<open>i\<close> and every other entry as it was; in the merged
  settings every key of \<open>s\<close> has the value \<open>s\<close> gives it, and every other key has what the
  old entry had (for the update \<open>{k: v}\<close>: key \<open>k\<close> is overwritten, every other key is
  preserved). An id that occurs in the list has such an index, and on a medium that
  accepts every write the call does not throw.
\<close>

theorem updateProfile_shallow_merge:
  "(pid \<notin> id' ` set (loadProfiles ls) \<longrightarrow>
      updateProfile md now now2 pid upd ls = (Inr None, ls))
   \<and> (\<forall>i s. findIndex (\<lambda>p. id' p = pid) (loadProfiles ls) = Some i
          \<and> settings_upd upd = Some s
          \<and> \<not> isl (fst (updateProfile md now now2 pid upd ls)) \<longrightarrow>
        (\<exists>q. fst (updateProfile md now now2 pid upd ls) = Inr (Some q)
            \<and> loadProfiles (snd (updateProfile md now now2 pid upd ls)) = (loadProfiles ls)[i := q]
            \<and> (\<forall>k v. s k = Some v \<longrightarrow> settings q k = Some v)
            \<and> (\<forall>k. s k = None \<longrightarrow> settings q k = settings (loadProfiles ls ! i) k)
            \<and> id' q = pid))
   \<and> (\<forall>i. findIndex (\<lambda>p. id' p = pid) (loadProfiles ls) = Some i \<longleftrightarrow>
          i < length (loadProfiles ls) \<and> id' (loadProfiles ls ! i) = pid
          \<and> (\<forall>j < i. id' (loadProfiles ls ! j) \<noteq> pid))
   \<and> (pid \<in> id' ` set (loadProfiles ls) \<longrightarrow>
        (\<exists>i. findIndex (\<lambda>p. id' p = pid) (loadProfiles ls) = Some i)
        \<and> \<not> isl (fst (updateProfile unbounded now now2 pid upd ls)))"
proof (intro conjI allI impI)
  show "updateProfile md now now2 pid upd ls = (Inr None, ls)"
    if "pid \<notin> id' ` set (loadProfiles ls)"
    using that by (rule updateProfile_absent)
next
  fix i s
  assume a: "findIndex (\<lambda>p. id' p = pid) (loadProfiles ls) = Some i
          \<and> settings_upd upd = Some s
          \<and> \<not> isl (fst (updateProfile md now now2 pid upd ls))"
  let ?q = "updatedProfile now upd (loadProfiles ls ! i)"
  from a updateProfile_present [of pid ls i md now now2 upd]
  have "fst (updateProfile md now now2 pid upd ls) = Inr (Some ?q)"
    and "loadProfiles (snd (updateProfile md now now2 pid upd ls)) = (loadProfiles ls)[i := ?q]"
    by simp_all
  moreover from a have "\<forall>k v. s k = Some v \<longrightarrow> settings ?q k = Some v"
    by (simp add: updatedProfile_def map_add_def)
  moreover from a have "\<forall>k. s k = None \<longrightarrow> settings ?q k = settings (loadProfiles ls ! i) k"
    by (simp add: updatedProfile_def map_add_def)
  moreover from a findIndex_Some [of "\<lambda>p. id' p = pid" "loadProfiles ls" i]
  have "id' ?q = pid"
    by (simp add: updatedProfile_id)
  ultimately show "\<exists>q. fst (updateProfile md now now2 pid upd ls) = Inr (Some q)
            \<and> loadProfiles (snd (updateProfile md now now2 pid upd ls)) = (loadProfiles ls)[i := q]
            \<and> (\<forall>k v. s k = Some v \<longrightarrow> settings q k = Some v)
            \<and> (\<forall>k. s k = None \<longrightarrow> settings q k = settings (loadProfiles ls ! i) k)
            \<and> id' q = pid"
    by blast
next
  fix i
  show "findIndex (\<lambda>p. id' p = pid) (loadProfiles ls) = Some i \<longleftrightarrow>
          i < length (loadProfiles ls) \<and> id' (loadProfiles ls ! i) = pid
          \<and> (\<forall>j < i. id' (loadProfiles ls ! j) \<noteq> pid)"
    using findIndex_Some [of "\<lambda>p. id' p = pid" "loadProfiles ls" i]
      findIndex_first [of i "loadProfiles ls" "\<lambda>p. id' p = pid"]
    by blast
next
  assume "pid \<in> id' ` set (loadProfiles ls)"
  then show "\<exists>i. findIndex (\<lambda>p. id' p = pid) (loadProfiles ls) = Some i"
    by (rule findIndex_present) blast
next
  show "\<not> isl (fst (updateProfile unbounded now now2 pid upd ls))"
    by (rule updateProfile_unbounded)
qed

theorem updateProfile_shallow_merge_witness:
  "findIndex (\<lambda>p. id' p = ''test-id'') (loadProfiles storageAB) = Some 0
   \<and> settings_upd themeLight = Some [''theme'' \<mapsto> ''light'']
   \<and> \<not> isl (fst (updateProfile unbounded ''T1'' ''T2'' ''test-id'' themeLight storageAB))
   \<and> (\<exists>q. fst (updateProfile unbounded ''T1'' ''T2'' ''test-id'' themeLight storageAB) = Inr (Some q)
          \<and> settings q ''theme'' = Some ''light''
          \<and> settings q ''language'' = settings profileA ''language'')
   \<and> findIndex (\<lambda>p. id' p = ''profile2'') (loadProfiles storageAB) = Some 1
   \<and> settings_upd languageFr = Some [''language'' \<mapsto> ''fr'']
   \<and> \<not> isl (fst (updateProfile unbounded ''T1'' ''T2'' ''profile2'' languageFr storageAB))
   \<and> loadProfiles (snd (updateProfile unbounded ''T1'' ''T2'' ''profile2'' languageFr storageAB))
       = [profileA,
          profileB\<lparr>updatedAt := ''T1'', settings := [''theme'' \<mapsto> ''light'', ''language'' \<mapsto> ''fr'']\<rparr>]
   \<and> ''missing'' \<notin> id' ` set (loadProfiles storageAB)
   \<and> updateProfile unbounded ''T1'' ''T2'' ''missing'' themeLight storageAB = (Inr None, storageAB)"
  using updateProfile_shallow_merge [of "''test-id''" storageAB unbounded "''T1''" "''T2''" themeLight]
        updateProfile_shallow_merge [of "''profile2''" storageAB unbounded "''T1''" "''T2''" languageFr]
        updateProfile_shallow_merge [of "''missing''" storageAB unbounded "''T1''" "''T2''" themeLight]
  by (simp add: updateProfile_storageAB_result updateProfile_missing_storageAB findIndex_storageAB
       themeLight_settings findIndex_storageAB_second updateProfile_storageAB_second
       languageFr_settings)
     (simp add: profileB_def)

text \<open>
  Claim C6, as amended. When \<open>updateProfile\<close> updates the entry whose id is the one in the
  current-profile item and does not throw, the item then holds the updated list entry with
  \<open>updatedAt\<close> set to the clock value read by the write of the item, while the list entry
  carries the clock value read at the merge: the two agree on every other field, and are
  the same value when the two clock readings are the same.
\<close>

theorem updateProfile_slot_follows_list:
  "findIndex (\<lambda>p. id' p = pid) (loadProfiles ls) = Some i
   \<and> loadCurrentProfile ls = Some cur \<and> id' cur = pid
   \<and> \<not> isl (fst (updateProfile md now now2 pid upd ls)) \<longrightarrow>
     (\<exists>q. fst (updateProfile md now now2 pid upd ls) = Inr (Some q)
         \<and> loadProfiles (snd (updateProfile md now now2 pid upd ls)) ! i = q
         \<and> updatedAt q = now
         \<and> loadCurrentProfile (snd (updateProfile md now now2 pid upd ls))
             = Some (q\<lparr>updatedAt := now2\<rparr>)
         \<and> (now2 = now \<longrightarrow>
              loadCurrentProfile (snd (updateProfile md now now2 pid upd ls)) = Some q))"
proof
  assume a: "findIndex (\<lambda>p. id' p = pid) (loadProfiles ls) = Some i
   \<and> loadCurrentProfile ls = Some cur \<and> id' cur = pid
   \<and> \<not> isl (fst (updateProfile md now now2 pid upd ls))"
  let ?q = "updatedProfile now upd (loadProfiles ls ! i)"
  from a findIndex_Some [of "\<lambda>p. id' p = pid" "loadProfiles ls" i]
  have len: "i < length (loadProfiles ls)" by simp
  from a updateProfile_present [of pid ls i md now now2 upd]
  have r: "fst (updateProfile md now now2 pid upd ls) = Inr (Some ?q)"
    and l: "loadProfiles (snd (updateProfile md now now2 pid upd ls)) = (loadProfiles ls)[i := ?q]"
    and c: "loadCurrentProfile (snd (updateProfile md now now2 pid upd ls))
             = Some (?q\<lparr>updatedAt := now2\<rparr>)"
    by simp_all
  have u: "updatedAt ?q = now"
    by (simp add: updatedProfile_def)
  have "now2 = now \<longrightarrow> ?q\<lparr>updatedAt := now2\<rparr> = ?q"
    by (simp add: updatedProfile_def)
  with r l c u len
  show "\<exists>q. fst (updateProfile md now now2 pid upd ls) = Inr (Some q)
         \<and> loadProfiles (snd (updateProfile md now now2 pid upd ls)) ! i = q
         \<and> updatedAt q = now
         \<and> loadCurrentProfile (snd (updateProfile md now now2 pid upd ls))
             = Some (q\<lparr>updatedAt := now2\<rparr>)
         \<and> (now2 = now \<longrightarrow>
              loadCurrentProfile (snd (updateProfile md now now2 pid upd ls)) = Some q)"
    by auto
qed

theorem updateProfile_slot_follows_list_witness:
  "findIndex (\<lambda>p. id' p = ''test-id'') (loadProfiles storageAB) = Some 0
   \<and> loadCurrentProfile storageAB = Some profileA \<and> id' profileA = ''test-id''
   \<and> \<not> isl (fst (updateProfile unbounded ''T1'' ''T2'' ''test-id'' themeLight storageAB))
   \<and> loadCurrentProfile (snd (updateProfile unbounded ''T1'' ''T2'' ''test-id'' themeLight storageAB))
       = Some ((loadProfiles (snd (updateProfile unbounded ''T1'' ''T2'' ''test-id'' themeLight storageAB)) ! 0)
                \<lparr>updatedAt := ''T2''\<rparr>)
   \<and> loadCurrentProfile (snd (updateProfile unbounded ''T1'' ''T1'' ''test-id'' themeLight storageAB))
       = Some (loadProfiles (snd (updateProfile unbounded ''T1'' ''T1'' ''test-id'' themeLight storageAB)) ! 0)"
  using updateProfile_slot_follows_list [of "''test-id''" storageAB 0 profileA unbounded "''T1''" "''T2''" themeLight]
        updateProfile_slot_follows_list [of "''test-id''" storageAB 0 profileA unbounded "''T1''" "''T1''" themeLight]
  by (simp add: updateProfile_storageAB_result updateProfile_storageAB_list
      updateProfile_storageAB_slot loadCurrentProfile_storageAB findIndex_storageAB)
     (simp add: profileA_def)

text \<open>
  Claim C6 as stated, that the item is identical to the list entry in every field including
  \<open>updatedAt\<close>, fails when the clock advances between the two reads: here by one
  millisecond.
\<close>

theorem updateProfile_slot_identical_counterexample:
  "loadCurrentProfile storageAB = Some profileA
   \<and> id' profileA = ''test-id''
   \<and> fst (updateProfile unbounded ''2024-01-01T00:00:00.000Z'' ''2024-01-01T00:00:00.001Z''
            ''test-id'' themeLight storageAB)
       = Inr (Some (loadProfiles (snd (updateProfile unbounded ''2024-01-01T00:00:00.000Z''
            ''2024-01-01T00:00:00.001Z'' ''test-id'' themeLight storageAB)) ! 0))
   \<and> loadCurrentProfile (snd (updateProfile unbounded ''2024-01-01T00:00:00.000Z''
            ''2024-01-01T00:00:00.001Z'' ''test-id'' themeLight storageAB))
       \<noteq> Some (loadProfiles (snd (updateProfile unbounded ''2024-01-01T00:00:00.000Z''
            ''2024-01-01T00:00:00.001Z'' ''test-id'' themeLight storageAB)) ! 0)"
  using updatedAt_differs [of "profileA\<lparr>settings := (settings profileA)(''theme'' \<mapsto> ''light'')\<rparr>"]
  by (simp add: updateProfile_storageAB_result updateProfile_storageAB_list
      updateProfile_storageAB_slot loadCurrentProfile_storageAB)
     (simp add: profileA_def)

section \<open>switchProfile\<close>

lemma switchProfile_absent:
  assumes "pid \<notin> id' ` set (loadProfiles ls)"
  shows "switchProfile md now1 now2 pid state ls =
           (Inl (''Profile with id '' @ pid @ '' not found''), ls,
            state\<lparr>loading := False,
                  error := Some (''Failed to switch profile: '' @ ''Profile with id '' @ pid @ '' not found'')\<rparr>)"
proof -
  from assms have "find (\<lambda>p. id' p = pid) (loadProfiles ls) = None"
    by (auto simp: find_None_iff)
  then show ?thesis
    by (simp add: switchProfile_def switchProfile_catch_def)
qed

lemma switchProfile_present:
  assumes t: "find (\<lambda>p. id' p = pid) (loadProfiles ls) = Some target"
    and ok: "\<not> isl (fst (switchProfile md now1 now2 pid state ls))"
  shows "switchProfile md now1 now2 pid state ls =
           (Inr (),
            ls\<lparr>CONFIG_STORAGE_KEY := Some (Serialized (target\<lparr>updatedAt := now2\<rparr>)),
               journal := journal ls
                  @ (case currentProfile state of
                       Some cur \<Rightarrow> [SetConfig (Serialized (cur\<lparr>updatedAt := now1\<rparr>))]
                     | None \<Rightarrow> [])
                  @ [SetConfig (Serialized (target\<lparr>updatedAt := now2\<rparr>))]\<rparr>,
            state\<lparr>currentProfile := Some target\<rparr>)"
proof -
  let ?first = "case currentProfile state of
                   Some cur \<Rightarrow> saveCurrentProfile md now1 cur ls
                 | None \<Rightarrow> (Inr (), ls)"
  obtain r1 ls1 where s1: "?first = (r1, ls1)" by (cases ?first)
  from ok t s1 have n1: "\<not> isl r1"
    by (cases r1) (auto simp: switchProfile_def switchProfile_catch_def)
  have ls1: "ls1 = ls\<lparr>journal := journal ls
                  @ (case currentProfile state of
                       Some cur \<Rightarrow> [SetConfig (Serialized (cur\<lparr>updatedAt := now1\<rparr>))]
                     | None \<Rightarrow> []),
                 CONFIG_STORAGE_KEY := (case currentProfile state of
                       Some cur \<Rightarrow> Some (Serialized (cur\<lparr>updatedAt := now1\<rparr>))
                     | None \<Rightarrow> CONFIG_STORAGE_KEY ls)\<rparr>"
    and r1: "r1 = Inr ()"
  proof -
    show "r1 = Inr ()" using n1 by (cases r1) auto
    show "ls1 = ls\<lparr>journal := journal ls
                  @ (case currentProfile state of
                       Some cur \<Rightarrow> [SetConfig (Serialized (cur\<lparr>updatedAt := now1\<rparr>))]
                     | None \<Rightarrow> []),
                 CONFIG_STORAGE_KEY := (case currentProfile state of
                       Some cur \<Rightarrow> Some (Serialized (cur\<lparr>updatedAt := now1\<rparr>))
                     | None \<Rightarrow> CONFIG_STORAGE_KEY ls)\<rparr>"
    proof (cases "currentProfile state")
      case None
      with s1 show ?thesis by simp
    next
      case (Some cur)
      with s1 have "saveCurrentProfile md now1 cur ls = (r1, ls1)" by simp
      from saveCurrentProfile_result [OF this] n1 Some show ?thesis by auto
    qed
  qed
  obtain r2 ls2 where s2: "saveCurrentProfile md now2 target ls1 = (r2, ls2)"
    by (cases "saveCurrentProfile md now2 target ls1")
  from ok t s1 r1 s2 have n2: "\<not> isl r2"
    by (cases r2) (auto simp: switchProfile_def switchProfile_catch_def)
  with saveCurrentProfile_result [OF s2]
  have r2: "r2 = Inr ()"
    and ls2: "ls2 = ls1\<lparr>CONFIG_STORAGE_KEY := Some (Serialized (target\<lparr>updatedAt := now2\<rparr>)),
        journal := journal ls1 @ [SetConfig (Serialized (target\<lparr>updatedAt := now2\<rparr>))]\<rparr>"
    by auto
  from t s1 r1 s2 r2 have "switchProfile md now1 now2 pid state ls
      = (Inr (), ls2, state\<lparr>currentProfile := Some target\<rparr>)"
    by (simp add: switchProfile_def)
  also have "ls2 = ls\<lparr>CONFIG_STORAGE_KEY := Some (Serialized (target\<lparr>updatedAt := now2\<rparr>)),
               journal := journal ls
                  @ (case currentProfile state of
                       Some cur \<Rightarrow> [SetConfig (Serialized (cur\<lparr>updatedAt := now1\<rparr>))]
                     | None \<Rightarrow> [])
                  @ [SetConfig (Serialized (target\<lparr>updatedAt := now2\<rparr>))]\<rparr>"
    by (simp add: ls2 ls1)
  finally show ?thesis .
qed

lemma switchProfile_unbounded:
  assumes "find (\<lambda>p. id' p = pid) (loadProfiles ls) = Some target"
  shows "\<not> isl (fst (switchProfile unbounded now1 now2 pid state ls))"
  using assms
  by (simp add: switchProfile_def saveCurrentProfile_unbounded split: option.splits)

lemma find_present:
  assumes "pid \<in> id' ` set ps"
  obtains target where "find (\<lambda>p. id' p = pid) ps = Some target" "id' target = pid"
proof -
  from assms have "find (\<lambda>p. id' p = pid) ps \<noteq> None"
    by (auto simp: find_None_iff)
  then obtain target where t: "find (\<lambda>p. id' p = pid) ps = Some target" by auto
  then have "id' target = pid" by (auto simp: find_Some_iff)
  with t show ?thesis by (rule that)
qed

lemma find_storageAB:
  "find (\<lambda>p. id' p = ''profile2'') (loadProfiles storageAB) = Some profileB"
  by (simp add: storageAB_def loadProfiles_def profileA_def profileB_def)

lemma switchProfile_storageAB:
  "switchProfile unbounded t1 t2 ''profile2'' stateAB storageAB =
     (Inr (),
      storageAB\<lparr>CONFIG_STORAGE_KEY := Some (Serialized (profileB\<lparr>updatedAt := t2\<rparr>)),
                journal := [SetConfig (Serialized (profileA\<lparr>updatedAt := t1\<rparr>)),
                            SetConfig (Serialized (profileB\<lparr>updatedAt := t2\<rparr>))]\<rparr>,
      stateAB\<lparr>currentProfile := Some profileB\<rparr>)"
proof -
  have c: "currentProfile stateAB = Some profileA"
    by (simp add: stateAB_def)
  have j: "journal storageAB = []"
    by (simp add: storageAB_def)
  show ?thesis
    by (simp add: switchProfile_def find_storageAB saveCurrentProfile_unbounded c j)
qed

text \<open>
  Claim C4. When no entry of the stored list has the id, \<open>switchProfile\<close> throws the
  not-found error and the storage is what it was. When the list has the id, \<open>target\<close>
  being its first entry with it, and the call does not throw, the writes of the call are,
  in this order, the profile the projector state holds as current (when it holds one) and
  then the target, both to the current-profile item and each stamped with the clock value
  of its write; the item ends up holding the target, the list item is untouched, and the
  projector state has the target as its current profile. An id that occurs in the list has
  such a first entry, and on a medium that accepts every write the call does not throw.
\<close>

theorem switchProfile_behaviour:
  "(pid \<notin> id' ` set (loadProfiles ls) \<longrightarrow>
      fst (switchProfile md now1 now2 pid state ls) = Inl (''Profile with id '' @ pid @ '' not found'')
      \<and> fst (snd (switchProfile md now1 now2 pid state ls)) = ls)
   \<and> (\<forall>target. find (\<lambda>p. id' p = pid) (loadProfiles ls) = Some target
         \<and> \<not> isl (fst (switchProfile md now1 now2 pid state ls)) \<longrightarrow>
        journal (fst (snd (switchProfile md now1 now2 pid state ls)))
          = journal ls
            @ (case currentProfile state of
                 Some cur \<Rightarrow> [SetConfig (JSON_stringify (cur\<lparr>updatedAt := now1\<rparr>))]
               | None \<Rightarrow> [])
            @ [SetConfig (JSON_stringify (target\<lparr>updatedAt := now2\<rparr>))]
        \<and> loadCurrentProfile (fst (snd (switchProfile md now1 now2 pid state ls)))
            = Some (target\<lparr>updatedAt := now2\<rparr>)
        \<and> PROFILES_STORAGE_KEY (fst (snd (switchProfile md now1 now2 pid state ls)))
            = PROFILES_STORAGE_KEY ls
        \<and> currentProfile (snd (snd (switchProfile md now1 now2 pid state ls))) = Some target
        \<and> profiles (snd (snd (switchProfile md now1 now2 pid state ls))) = profiles state)
   \<and> (pid \<in> id' ` set (loadProfiles ls) \<longrightarrow>
        (\<exists>target. find (\<lambda>p. id' p = pid) (loadProfiles ls) = Some target \<and> id' target = pid)
        \<and> \<not> isl (fst (switchProfile unbounded now1 now2 pid state ls)))"
proof (intro conjI allI impI)
  assume "pid \<notin> id' ` set (loadProfiles ls)"
  from switchProfile_absent [OF this, of md now1 now2 state]
  show "fst (switchProfile md now1 now2 pid state ls) = Inl (''Profile with id '' @ pid @ '' not found'')"
    and "fst (snd (switchProfile md now1 now2 pid state ls)) = ls"
    by simp_all
next
  fix target
  assume "find (\<lambda>p. id' p = pid) (loadProfiles ls) = Some target
         \<and> \<not> isl (fst (switchProfile md now1 now2 pid state ls))"
  then have e: "switchProfile md now1 now2 pid state ls =
           (Inr (),
            ls\<lparr>CONFIG_STORAGE_KEY := Some (Serialized (target\<lparr>updatedAt := now2\<rparr>)),
               journal := journal ls
                  @ (case currentProfile state of
                       Some cur \<Rightarrow> [SetConfig (Serialized (cur\<lparr>updatedAt := now1\<rparr>))]
                     | None \<Rightarrow> [])
                  @ [SetConfig (Serialized (target\<lparr>updatedAt := now2\<rparr>))]\<rparr>,
            state\<lparr>currentProfile := Some target\<rparr>)"
    using switchProfile_present by blast
  show "journal (fst (snd (switchProfile md now1 now2 pid state ls)))
          = journal ls
            @ (case currentProfile state of
                 Some cur \<Rightarrow> [SetConfig (JSON_stringify (cur\<lparr>updatedAt := now1\<rparr>))]
               | None \<Rightarrow> [])
            @ [SetConfig (JSON_stringify (target\<lparr>updatedAt := now2\<rparr>))]"
    by (simp add: e JSON_stringify_def split: option.splits)
  show "loadCurrentProfile (fst (snd (switchProfile md now1 now2 pid state ls)))
            = Some (target\<lparr>updatedAt := now2\<rparr>)"
    by (simp add: e)
  show "PROFILES_STORAGE_KEY (fst (snd (switchProfile md now1 now2 pid state ls)))
            = PROFILES_STORAGE_KEY ls"
    by (simp add: e)
  show "currentProfile (snd (snd (switchProfile md now1 now2 pid state ls))) = Some target"
    by (simp add: e)
  show "profiles (snd (snd (switchProfile md now1 now2 pid state ls))) = profiles state"
    by (simp add: e)
next
  assume p: "pid \<in> id' ` set (loadProfiles ls)"
  then obtain target where t: "find (\<lambda>p. id' p = pid) (loadProfiles ls) = Some target" "id' target = pid"
    by (rule find_present)
  then show "\<exists>target. find (\<lambda>p. id' p = pid) (loadProfiles ls) = Some target \<and> id' target = pid"
    by blast
  from t(1) show "\<not> isl (fst (switchProfile unbounded now1 now2 pid state ls))"
    by (rule switchProfile_unbounded)
qed

theorem switchProfile_behaviour_witness:
  "find (\<lambda>p. id' p = ''profile2'') (loadProfiles storageAB) = Some profileB
   \<and> \<not> isl (fst (switchProfile unbounded ''T1'' ''T2'' ''profile2'' stateAB storageAB))
   \<and> journal (fst (snd (switchProfile unbounded ''T1'' ''T2'' ''profile2'' stateAB storageAB)))
       = [SetConfig (Serialized (profileA\<lparr>updatedAt := ''T1''\<rparr>)),
          SetConfig (Serialized (profileB\<lparr>updatedAt := ''T2''\<rparr>))]
   \<and> currentProfile (snd (snd (switchProfile unbounded ''T1'' ''T2'' ''profile2'' stateAB storageAB)))
       = Some profileB
   \<and> ''missing'' \<notin> id' ` set (loadProfiles storageAB)
   \<and> fst (switchProfile unbounded ''T1'' ''T2'' ''missing'' stateAB storageAB)
       = Inl ''Profile with id missing not found''
   \<and> fst (snd (switchProfile unbounded ''T1'' ''T2'' ''missing'' stateAB storageAB)) = storageAB"
  using switchProfile_behaviour [of "''profile2''" storageAB unbounded "''T1''" "''T2''" stateAB]
        switchProfile_behaviour [of "''missing''" storageAB unbounded "''T1''" "''T2''" stateAB]
  by (simp add: switchProfile_storageAB find_storageAB updateProfile_missing_storageAB)

section \<open>createProfile\<close>

lemma createProfile_returns:
  assumes ok: "\<not> isl (fst (createProfile md t rnd now now2 req ls))"
  shows "fst (createProfile md t rnd now now2 req ls) = Inr (newProfile t rnd now req ls)"
    and "loadProfiles (snd (createProfile md t rnd now now2 req ls))
           = loadProfiles ls @ [newProfile t rnd now req ls]"
    and "loadCurrentProfile (snd (createProfile md t rnd now now2 req ls))
           = (if loadProfiles ls = [] then Some ((newProfile t rnd now req ls)\<lparr>updatedAt := now2\<rparr>)
              else loadCurrentProfile ls)"
proof -
  let ?np = "newProfile t rnd now req ls"
  let ?ps' = "loadProfiles ls @ [?np]"
  obtain r1 ls1 where s1: "saveProfiles md ?ps' ls = (r1, ls1)"
    by (cases "saveProfiles md ?ps' ls")
  from ok s1 have "\<not> isl r1"
    by (cases r1) (auto simp: createProfile_def Let_def)
  with saveProfiles_result [OF s1]
  have r1: "r1 = Inr ()"
    and ls1: "ls1 = ls\<lparr>PROFILES_STORAGE_KEY := Some (Serialized ?ps'),
                       journal := journal ls @ [SetProfiles (Serialized ?ps')]\<rparr>"
    by auto
  have "fst (createProfile md t rnd now now2 req ls) = Inr ?np
      \<and> loadProfiles (snd (createProfile md t rnd now now2 req ls)) = ?ps'
      \<and> loadCurrentProfile (snd (createProfile md t rnd now now2 req ls))
           = (if loadProfiles ls = [] then Some (?np\<lparr>updatedAt := now2\<rparr>)
              else loadCurrentProfile ls)"
  proof (cases "loadProfiles ls = []")
    case False
    with s1 r1 ls1 show ?thesis
      by (simp add: createProfile_def Let_def)
  next
    case True
    obtain r2 ls2 where s2: "saveCurrentProfile md now2 ?np ls1 = (r2, ls2)"
      by (cases "saveCurrentProfile md now2 ?np ls1")
    from ok True s1 r1 s2 have "\<not> isl r2"
      by (cases r2) (auto simp: createProfile_def Let_def)
    with saveCurrentProfile_result [OF s2]
    have "r2 = Inr ()"
      "ls2 = ls1\<lparr>CONFIG_STORAGE_KEY := Some (Serialized (?np\<lparr>updatedAt := now2\<rparr>)),
                 journal := journal ls1 @ [SetConfig (Serialized (?np\<lparr>updatedAt := now2\<rparr>))]\<rparr>"
      by auto
    with True s1 r1 ls1 s2 show ?thesis
      by (simp add: createProfile_def Let_def)
  qed
  then show "fst (createProfile md t rnd now now2 req ls) = Inr ?np"
    and "loadProfiles (snd (createProfile md t rnd now now2 req ls)) = ?ps'"
    and "loadCurrentProfile (snd (createProfile md t rnd now now2 req ls))
           = (if loadProfiles ls = [] then Some (?np\<lparr>updatedAt := now2\<rparr>)
              else loadCurrentProfile ls)"
    by blast+
qed

lemma createProfile_unbounded:
  "\<not> isl (fst (createProfile unbounded t rnd now now2 req ls))"
  by (simp add: createProfile_def Let_def saveProfiles_unbounded saveCurrentProfile_unbounded)

subsection \<open>The generated id as a function of the clock reading and the random suffix\<close>

lemma digit_code: "d < 10 \<Longrightarrow> of_char (digit d) = (48 + d :: nat)"
proof -
  assume "d < 10"
  then have "d = 0 \<or> d = 1 \<or> d = 2 \<or> d = 3 \<or> d = 4 \<or> d = 5 \<or> d = 6 \<or> d = 7 \<or> d = 8 \<or> d = 9"
    by arith
  then show ?thesis
    by (elim disjE) (simp_all add: digit_def)
qed

lemma digit_inj: "a < 10 \<Longrightarrow> b < 10 \<Longrightarrow> digit a = digit b \<Longrightarrow> a = b"
proof -
  assume a: "a < 10" and b: "b < 10" and e: "digit a = digit b"
  from e have "(of_char (digit a) :: nat) = of_char (digit b)" 
    by (rule arg_cong)
  then have "48 + a = 48 + b"
    by (simp only: digit_code [OF a] digit_code [OF b])
  then show "a = b" by simp
qed

lemma digit_not_underscore: "d < 10 \<Longrightarrow> digit d \<noteq> CHR ''_''"
proof
  assume d: "d < 10" and e: "digit d = CHR ''_''"
  from e have "(of_char (digit d) :: nat) = of_char (CHR ''_'')"
    by (rule arg_cong)
  then have "48 + d = (of_char (CHR ''_'') :: nat)"
    by (simp only: digit_code [OF d])
  with d show False by simp
qed

lemma decimal_unfold:
  "n < 10 \<Longrightarrow> decimal n = [digit n]"
  "\<not> n < 10 \<Longrightarrow> decimal n = decimal (n div 10) @ [digit (n mod 10)]"
  by (simp_all add: decimal.simps [of n])

lemma decimal_not_Nil: "decimal n \<noteq> []"
  by (cases "n < 10") (simp_all add: decimal_unfold)

lemma decimal_no_underscore: "CHR ''_'' \<notin> set (decimal n)"
proof (induction n rule: decimal.induct)
  case (1 n)
  show ?case
  proof (cases "n < 10")
    case True
    then show ?thesis
      using digit_not_underscore [of n] by (auto simp: decimal_unfold)
  next
    case False
    with 1 show ?thesis
      using digit_not_underscore [of "n mod 10"] by (auto simp: decimal_unfold)
  qed
qed

lemma decimal_inj: "decimal m = decimal n \<Longrightarrow> m = n"
proof (induction m arbitrary: n rule: decimal.induct)
  case (1 m)
  show ?case
  proof (cases "m < 10")
    case m: True
    show ?thesis
    proof (cases "n < 10")
      case True
      with m "1.prems" show ?thesis
        by (simp add: decimal_unfold digit_inj)
    next
      case False
      with m "1.prems" decimal_not_Nil [of "n div 10"] show ?thesis
        by (simp add: decimal_unfold)
    qed
  next
    case m: False
    show ?thesis
    proof (cases "n < 10")
      case True
      with m "1.prems" decimal_not_Nil [of "m div 10"] show ?thesis
        by (simp add: decimal_unfold)
    next
      case False
      with m "1.prems"
      have "decimal (m div 10) = decimal (n div 10)" and "digit (m mod 10) = digit (n mod 10)"
        by (simp_all add: decimal_unfold)
      with "1.IH" [OF m] have "m div 10 = n div 10" and "m mod 10 = n mod 10"
        by (simp_all add: digit_inj)
      then show ?thesis
        by (metis div_mult_mod_eq)
    qed
  qed
qed

lemma split_at_underscore:
  "CHR ''_'' \<notin> set xs \<Longrightarrow> CHR ''_'' \<notin> set ys \<Longrightarrow>
     xs @ CHR ''_'' # r = ys @ CHR ''_'' # r' \<Longrightarrow> xs = ys \<and> r = r'"
proof (induction xs arbitrary: ys)
  case Nil
  then show ?case by (cases ys) auto
next
  case (Cons x xs)
  then show ?case by (cases ys) auto
qed

lemma newProfile_id_inj:
  assumes "id' (newProfile t rnd now req ls) = id' (newProfile t' rnd' now' req' ls')"
  shows "t = t' \<and> rnd = rnd'"
proof -
  from assms have "decimal t @ CHR ''_'' # rnd = decimal t' @ CHR ''_'' # rnd'"
    by (simp add: newProfile_def)
  from split_at_underscore [OF decimal_no_underscore decimal_no_underscore this]
  show ?thesis by (auto dest: decimal_inj)
qed

subsection \<open>What updateProfile leaves alone\<close>

lemma updateProfile_slot_frame:
  assumes "loadCurrentProfile ls = Some c" and "id' c \<noteq> pid"
  shows "CONFIG_STORAGE_KEY (snd (updateProfile md n1 n2 pid upd ls)) = CONFIG_STORAGE_KEY ls"
proof (cases "findIndex (\<lambda>p. id' p = pid) (loadProfiles ls)")
  case None
  then show ?thesis by (simp add: updateProfile_def)
next
  case (Some i)
  let ?ps' = "(loadProfiles ls)[i := updatedProfile n1 upd (loadProfiles ls ! i)]"
  obtain r1 ls1 where s1: "saveProfiles md ?ps' ls = (r1, ls1)"
    by (cases "saveProfiles md ?ps' ls")
  from saveProfiles_result [OF s1] show ?thesis
  proof
    assume "\<exists>e. r1 = Inl e \<and> ls1 = ls"
    with Some s1 show ?thesis by (auto simp: updateProfile_def Let_def)
  next
    assume "r1 = Inr () \<and> ls1 = ls\<lparr>PROFILES_STORAGE_KEY := Some (Serialized ?ps'),
                                journal := journal ls @ [SetProfiles (Serialized ?ps')]\<rparr>"
    with Some s1 assms show ?thesis by (simp add: updateProfile_def Let_def)
  qed
qed

lemma updateProfile_list_frame:
  "loadProfiles (snd (updateProfile md n1 n2 pid upd ls)) = loadProfiles ls
   \<or> (\<exists>i. findIndex (\<lambda>p. id' p = pid) (loadProfiles ls) = Some i
          \<and> loadProfiles (snd (updateProfile md n1 n2 pid upd ls))
              = (loadProfiles ls)[i := updatedProfile n1 upd (loadProfiles ls ! i)])"
proof (cases "findIndex (\<lambda>p. id' p = pid) (loadProfiles ls)")
  case None
  then show ?thesis by (simp add: updateProfile_def)
next
  case (Some i)
  let ?m = "updatedProfile n1 upd (loadProfiles ls ! i)"
  let ?ps' = "(loadProfiles ls)[i := ?m]"
  obtain r1 ls1 where s1: "saveProfiles md ?ps' ls = (r1, ls1)"
    by (cases "saveProfiles md ?ps' ls")
  from saveProfiles_result [OF s1] show ?thesis
  proof
    assume "\<exists>e. r1 = Inl e \<and> ls1 = ls"
    with Some s1 show ?thesis by (auto simp: updateProfile_def Let_def)
  next
    assume a: "r1 = Inr () \<and> ls1 = ls\<lparr>PROFILES_STORAGE_KEY := Some (Serialized ?ps'),
                                journal := journal ls @ [SetProfiles (Serialized ?ps')]\<rparr>"
    have "loadProfiles (snd (updateProfile md n1 n2 pid upd ls)) = ?ps'"
    proof (cases "\<exists>cur. loadCurrentProfile ls = Some cur \<and> id' cur = pid")
      case False
      with Some s1 a show ?thesis
        by (auto simp: updateProfile_def Let_def split: option.splits)
    next
      case True
      obtain r2 ls2 where s2: "saveCurrentProfile md n2 ?m ls1 = (r2, ls2)"
        by (cases "saveCurrentProfile md n2 ?m ls1")
      from saveCurrentProfile_result [OF s2] a have "loadProfiles ls2 = ?ps'"
        by auto
      with True Some s1 a s2 show ?thesis
        by (cases r2) (auto simp: updateProfile_def Let_def)
    qed
    with Some show ?thesis by simp
  qed
qed

lemma updateProfile_keeps_other_entry:
  assumes l: "loadProfiles ls = ps @ [np]" and "id' np \<noteq> pid"
  shows "last (loadProfiles (snd (updateProfile md n1 n2 pid upd ls))) = np"
proof -
  from updateProfile_list_frame [of md n1 n2 pid upd ls] show ?thesis
  proof
    assume "loadProfiles (snd (updateProfile md n1 n2 pid upd ls)) = loadProfiles ls"
    with l show ?thesis by simp
  next
    assume "\<exists>i. findIndex (\<lambda>p. id' p = pid) (loadProfiles ls) = Some i
          \<and> loadProfiles (snd (updateProfile md n1 n2 pid upd ls))
              = (loadProfiles ls)[i := updatedProfile n1 upd (loadProfiles ls ! i)]"
    then obtain i where i: "findIndex (\<lambda>p. id' p = pid) (ps @ [np]) = Some i"
      and e: "loadProfiles (snd (updateProfile md n1 n2 pid upd ls))
              = (ps @ [np])[i := updatedProfile n1 upd ((ps @ [np]) ! i)]"
      by (auto simp: l)
    from findIndex_Some [OF i] have "i < length (ps @ [np])" and "id' ((ps @ [np]) ! i) = pid"
      by simp_all
    with assms have "i < length ps"
      by (cases "i = length ps") auto
    then show ?thesis
      by (simp add: e list_update_append last_list_update)
  qed
qed

lemma decimal_example: "decimal 1700000000000 = ''1700000000000''"
  by (simp add: decimal.simps digit_def)

lemma newProfile_emptyStorage:
  "newProfile 1700000000000 ''k3j9x2m1q'' ''2023-11-14T22:13:20.000Z'' requestWork
     (emptyStorage :: string localStorage) = firstProfile"
  by (simp add: newProfile_def decimal_example requestWork_def emptyStorage_def
      loadCurrentProfile_def firstProfile_def)

lemma storageFirst_eval:
  "storageFirst =
     \<lparr> CONFIG_STORAGE_KEY = Some (Serialized firstProfile),
       PROFILES_STORAGE_KEY = Some (Serialized [firstProfile]),
       journal = [SetProfiles (Serialized [firstProfile]), SetConfig (Serialized firstProfile)] \<rparr>"
proof -
  have u: "firstProfile\<lparr>updatedAt := ''2023-11-14T22:13:20.000Z''\<rparr> = firstProfile"
    by (simp add: firstProfile_def)
  have l: "loadProfiles (emptyStorage :: string localStorage) = []"
    by (simp add: emptyStorage_def loadProfiles_def)
  show ?thesis
    by (simp add: storageFirst_def createProfile_def Let_def newProfile_emptyStorage l
        saveProfiles_unbounded saveCurrentProfile_unbounded u)
       (simp add: emptyStorage_def)
qed

lemma newProfile_storageFirst:
  "newProfile 1700000000000 ''k3j9x2m1q'' ''2023-11-14T22:13:20.000Z'' requestWork storageFirst
     = firstProfile"
  by (simp add: newProfile_def decimal_example requestWork_def storageFirst_eval
      loadCurrentProfile_def)
     (simp add: firstProfile_def)

lemma newProfile_storageAB:
  "newProfile 1700000000000 ''k3j9x2m1q'' ''T1'' requestWork storageAB
     = \<lparr> id' = ''profile_1700000000000_k3j9x2m1q'', name = ''Work'',
         settings = settings profileA, createdAt = ''T1'', updatedAt = ''T1'', version = 1 \<rparr>"
  by (simp add: newProfile_def decimal_example requestWork_def loadCurrentProfile_storageAB)

lemma createProfile_storageAB:
  "fst (createProfile unbounded 1700000000000 ''k3j9x2m1q'' ''T1'' ''T2'' requestWork storageAB)
     = Inr \<lparr> id' = ''profile_1700000000000_k3j9x2m1q'', name = ''Work'',
             settings = settings profileA, createdAt = ''T1'', updatedAt = ''T1'', version = 1 \<rparr>"
  "loadProfiles (snd (createProfile unbounded 1700000000000 ''k3j9x2m1q'' ''T1'' ''T2'' requestWork storageAB))
     = [profileA, profileB,
        \<lparr> id' = ''profile_1700000000000_k3j9x2m1q'', name = ''Work'',
          settings = settings profileA, createdAt = ''T1'', updatedAt = ''T1'', version = 1 \<rparr>]"
  "loadCurrentProfile (snd (createProfile unbounded 1700000000000 ''k3j9x2m1q'' ''T1'' ''T2'' requestWork storageAB))
     = Some profileA"
  by (simp_all add: createProfile_def Let_def newProfile_storageAB loadProfiles_storageAB
      saveProfiles_unbounded loadCurrentProfile_storageAB)

text \<open>
  Claim C7, as amended. When \<open>createProfile\<close> does not throw, it returns a profile whose id
  is the text \<open>profile_\<close>, the clock reading in decimal, an underscore and the random
  suffix; whose name is the requested one; whose \<open>createdAt\<close> and \<open>updatedAt\<close> are both
  the clock value read for them and whose version is 1; whose settings are those of the
  profile that the current-profile item decodes to when \<open>copyFromCurrent\<close> is not
  \<open>false\<close> and the item decodes, and the empty bag otherwise. The profile is appended to
  the stored list as an entry of its own: an \<open>updateProfile\<close> of the new id leaves a current
  profile of another id as it is, and an \<open>updateProfile\<close> of any other id leaves the new
  entry as it is. The id is not compared with the stored ones; it differs from the id of
  any creation whose clock reading or random suffix differs. On a medium that accepts
  every write the call does not throw.
\<close>

theorem createProfile_result:
  "(\<not> isl (fst (createProfile md t rnd now now2 req (ls :: 'v localStorage))) \<longrightarrow>
     (\<exists>np. fst (createProfile md t rnd now now2 req ls) = Inr np
        \<and> id' np = ''profile_'' @ decimal t @ ''_'' @ rnd
        \<and> name np = name_req req
        \<and> createdAt np = now \<and> updatedAt np = now \<and> version np = 1
        \<and> settings np =
            (if copyFromCurrent req \<noteq> Some False
             then (case loadCurrentProfile ls of Some cur \<Rightarrow> settings cur | None \<Rightarrow> Map.empty)
             else Map.empty)
        \<and> loadProfiles (snd (createProfile md t rnd now now2 req ls)) = loadProfiles ls @ [np]
        \<and> (\<forall>md' n1 n2 upd c.
              loadCurrentProfile (snd (createProfile md t rnd now now2 req ls)) = Some c
              \<and> id' c \<noteq> id' np \<longrightarrow>
              loadCurrentProfile
                (snd (updateProfile md' n1 n2 (id' np) upd (snd (createProfile md t rnd now now2 req ls))))
                = Some c)
        \<and> (\<forall>md' n1 n2 upd pid.
              pid \<noteq> id' np \<longrightarrow>
              last (loadProfiles
                (snd (updateProfile md' n1 n2 pid upd (snd (createProfile md t rnd now now2 req ls)))))
                = np)
        \<and> (\<forall>md' t' rnd' now' now2' req' (ls' :: 'v localStorage) np'.
              fst (createProfile md' t' rnd' now' now2' req' ls') = Inr np'
              \<and> (t' \<noteq> t \<or> rnd' \<noteq> rnd) \<longrightarrow> id' np' \<noteq> id' np)))
   \<and> \<not> isl (fst (createProfile unbounded t rnd now now2 req ls))"
proof (intro conjI impI)
  assume ok: "\<not> isl (fst (createProfile md t rnd now now2 req ls))"
  let ?np = "newProfile t rnd now req ls :: 'v ConfigurationProfile"
  let ?ls' = "snd (createProfile md t rnd now now2 req ls)"
  note r = createProfile_returns [OF ok]
  have slot: "loadCurrentProfile (snd (updateProfile md' n1 n2 (id' ?np) upd ?ls')) = Some c"
    if "loadCurrentProfile ?ls' = Some c \<and> id' c \<noteq> id' ?np" for md' n1 n2 upd c
  proof -
    from that updateProfile_slot_frame [of ?ls' c "id' ?np" md' n1 n2 upd]
    have "CONFIG_STORAGE_KEY (snd (updateProfile md' n1 n2 (id' ?np) upd ?ls')) = CONFIG_STORAGE_KEY ?ls'"
      by simp
    with that show ?thesis by (simp add: loadCurrentProfile_def)
  qed
  have entry: "last (loadProfiles (snd (updateProfile md' n1 n2 pid upd ?ls'))) = ?np"
    if "pid \<noteq> id' ?np" for md' n1 n2 upd pid
    using r(2) that by (intro updateProfile_keeps_other_entry) auto
  have other: "id' np' \<noteq> id' ?np"
    if "fst (createProfile md' t' rnd' now' now2' req' ls') = Inr np' \<and> (t' \<noteq> t \<or> rnd' \<noteq> rnd)"
    for md' t' rnd' now' now2' req' and ls' :: "'v localStorage" and np'
  proof -
    from that have "\<not> isl (fst (createProfile md' t' rnd' now' now2' req' ls'))" by simp
    from createProfile_returns(1) [OF this] that have "np' = newProfile t' rnd' now' req' ls'"
      by simp
    with that newProfile_id_inj [of t' rnd' now' req' ls' t rnd now req ls] show ?thesis
      by auto
  qed
  have f1: "id' ?np = ''profile_'' @ decimal t @ ''_'' @ rnd"
    and f2: "name ?np = name_req req"
    and f3: "createdAt ?np = now" and f4: "updatedAt ?np = now" and f5: "version ?np = 1"
    and f6: "settings ?np =
            (if copyFromCurrent req \<noteq> Some False
             then (case loadCurrentProfile ls of Some cur \<Rightarrow> settings cur | None \<Rightarrow> Map.empty)
             else Map.empty)"
    by (simp_all add: newProfile_def)
  have g1: "\<forall>md' n1 n2 upd c.
              loadCurrentProfile ?ls' = Some c \<and> id' c \<noteq> id' ?np \<longrightarrow>
              loadCurrentProfile (snd (updateProfile md' n1 n2 (id' ?np) upd ?ls')) = Some c"
    using slot by blast
  have g2: "\<forall>md' n1 n2 upd pid.
              pid \<noteq> id' ?np \<longrightarrow>
              last (loadProfiles (snd (updateProfile md' n1 n2 pid upd ?ls'))) = ?np"
    using entry by blast
  have g3: "\<forall>md' t' rnd' now' now2' req' (ls' :: 'v localStorage) np'.
              fst (createProfile md' t' rnd' now' now2' req' ls') = Inr np'
              \<and> (t' \<noteq> t \<or> rnd' \<noteq> rnd) \<longrightarrow> id' np' \<noteq> id' ?np"
    using other by blast
  show "\<exists>np. fst (createProfile md t rnd now now2 req ls) = Inr np
        \<and> id' np = ''profile_'' @ decimal t @ ''_'' @ rnd
        \<and> name np = name_req req
        \<and> createdAt np = now \<and> updatedAt np = now \<and> version np = 1
        \<and> settings np =
            (if copyFromCurrent req \<noteq> Some False
             then (case loadCurrentProfile ls of Some cur \<Rightarrow> settings cur | None \<Rightarrow> Map.empty)
             else Map.empty)
        \<and> loadProfiles ?ls' = loadProfiles ls @ [np]
        \<and> (\<forall>md' n1 n2 upd c.
              loadCurrentProfile ?ls' = Some c \<and> id' c \<noteq> id' np \<longrightarrow>
              loadCurrentProfile (snd (updateProfile md' n1 n2 (id' np) upd ?ls')) = Some c)
        \<and> (\<forall>md' n1 n2 upd pid.
              pid \<noteq> id' np \<longrightarrow>
              last (loadProfiles (snd (updateProfile md' n1 n2 pid upd ?ls'))) = np)
        \<and> (\<forall>md' t' rnd' now' now2' req' (ls' :: 'v localStorage) np'.
              fst (createProfile md' t' rnd' now' now2' req' ls') = Inr np'
              \<and> (t' \<noteq> t \<or> rnd' \<noteq> rnd) \<longrightarrow> id' np' \<noteq> id' np)"
    by (intro exI [of _ ?np] conjI) (fact r(1) f1 f2 f3 f4 f5 f6 r(2) g1 g2 g3)+
next
  show "\<not> isl (fst (createProfile unbounded t rnd now now2 req ls))"
    by (rule createProfile_unbounded)
qed

theorem createProfile_result_witness:
  "\<not> isl (fst (createProfile unbounded 1700000000000 ''k3j9x2m1q'' ''T1'' ''T2'' requestWork storageAB))
   \<and> fst (createProfile unbounded 1700000000000 ''k3j9x2m1q'' ''T1'' ''T2'' requestWork storageAB)
       = Inr \<lparr> id' = ''profile_1700000000000_k3j9x2m1q'', name = ''Work'',
               settings = settings profileA, createdAt = ''T1'', updatedAt = ''T1'', version = 1 \<rparr>
   \<and> loadProfiles (snd (createProfile unbounded 1700000000000 ''k3j9x2m1q'' ''T1'' ''T2'' requestWork storageAB))
       = [profileA, profileB,
          \<lparr> id' = ''profile_1700000000000_k3j9x2m1q'', name = ''Work'',
            settings = settings profileA, createdAt = ''T1'', updatedAt = ''T1'', version = 1 \<rparr>]
   \<and> id' profileA \<noteq> ''profile_1700000000000_k3j9x2m1q''
   \<and> loadCurrentProfile
        (snd (updateProfile unbounded ''T3'' ''T4'' ''profile_1700000000000_k3j9x2m1q'' themeLight
           (snd (createProfile unbounded 1700000000000 ''k3j9x2m1q'' ''T1'' ''T2'' requestWork storageAB))))
       = Some profileA"
proof -
  have d: "id' profileA \<noteq> ''profile_1700000000000_k3j9x2m1q''"
    by (simp add: profileA_def)
  show ?thesis
    using createProfile_result [of unbounded 1700000000000 "''k3j9x2m1q''" "''T1''" "''T2''" requestWork storageAB]
    by (simp add: createProfile_storageAB d)
qed

text \<open>
  Claim C7 as stated, that the id is distinct from every id already in the stored list
  also under rapid successive calls, fails for two calls that read the same millisecond
  and draw the same suffix: the second call returns the id the first one stored.
\<close>

theorem createProfile_fresh_id_counterexample:
  "fst (createProfile unbounded 1700000000000 ''k3j9x2m1q'' ''2023-11-14T22:13:20.000Z''
         ''2023-11-14T22:13:20.000Z'' requestWork storageFirst) = Inr firstProfile
   \<and> id' firstProfile \<in> id' ` set (loadProfiles storageFirst)"
proof -
  have l: "loadProfiles storageFirst = [firstProfile]"
    by (simp add: storageFirst_eval loadProfiles_def)
  show ?thesis
    by (simp add: createProfile_def Let_def newProfile_storageFirst l saveProfiles_unbounded)
qed

section \<open>The autosave coalescer\<close>

lemma elapse_idle:
  assumes "timers s = []"
  shows "elapse func n s = s\<lparr>clock := clock s + n\<rparr>"
  using assms by (simp add: elapse_def)

lemma elapse_early:
  assumes "armed r a s" and "n < r"
  shows "armed (r - n) a (elapse func n s)" and "world (elapse func n s) = world s"
    and "clock (elapse func n s) = clock s + n"
  using assms by (auto simp: armed_def elapse_def)

lemma elapse_fires:
  assumes "armed r a s" and "r \<le> n"
  shows "timers (elapse func n s) = []"
    and "world (elapse func n s) = func a (clock s + r) (world s)"
    and "clock (elapse func n s) = clock s + n"
  using assms
  by (auto simp: armed_def elapse_def fire_def later_def clearTimeout_def Let_def)

lemma executedFunction_arms:
  assumes "timers s = [] \<or> armed r b s"
  shows "armed wait a (executedFunction wait a s)"
    and "world (executedFunction wait a s) = world s"
    and "clock (executedFunction wait a s) = clock s"
  using assms
  by (auto simp: armed_def executedFunction_def clearTimeout_def setTimeout_def Let_def)

lemma invocations_armed:
  assumes "armed 5000 a s" and "\<forall>(gap, p) \<in> set calls. gap < 5000"
  shows "armed 5000 (last (a # map snd calls)) (invocations md toISOString calls s)
       \<and> world (invocations md toISOString calls s) = world s
       \<and> clock (invocations md toISOString calls s) = clock s + sum_list (map fst calls)"
  using assms
proof (induction calls arbitrary: a s)
  case Nil
  then show ?case by (simp add: invocations_def)
next
  case (Cons c calls)
  obtain gap p where c: "c = (gap, p)" by (cases c)
  let ?f = "debouncedSaveCurrentProfile_func md toISOString"
  let ?s1 = "elapse ?f gap s"
  let ?s2 = "autoSaveCurrentProfile p ?s1"
  from Cons.prems c have gap: "gap < 5000" by simp
  from elapse_early [OF Cons.prems(1) gap, of ?f]
  have a1: "armed (5000 - gap) a ?s1" and w1: "world ?s1 = world s" and c1: "clock ?s1 = clock s + gap"
    by simp_all
  from a1 have "timers ?s1 = [] \<or> armed (5000 - gap) a ?s1" by simp
  from executedFunction_arms [OF this, of 5000 p]
  have a2: "armed 5000 p ?s2" and w2: "world ?s2 = world ?s1" and c2: "clock ?s2 = clock ?s1"
    by (simp_all add: autoSaveCurrentProfile_def)
  from Cons.prems have rest: "\<forall>(gap, p) \<in> set calls. gap < 5000" by simp
  have unfold: "invocations md toISOString ((gap, p) # calls) s = invocations md toISOString calls ?s2"
    by (simp add: invocations_def)
  from Cons.IH [OF a2 rest] w1 w2 c1 c2 show ?case
    by (simp add: unfold c)
qed

lemma quiet_armed:
  assumes "armed r a s" and "0 < r"
  shows "world (fold (elapse func) waits s)
           = (if sum_list waits < r then world s else func a (clock s + r) (world s))"
  using assms
proof (induction waits arbitrary: s r)
  case Nil
  then show ?case by simp
next
  case (Cons n waits)
  show ?case
  proof (cases "n < r")
    case True
    from elapse_early [OF Cons.prems(1) True, of func]
    have a: "armed (r - n) a (elapse func n s)" and w: "world (elapse func n s) = world s"
      and c: "clock (elapse func n s) = clock s + n"
      by simp_all
    from True have "0 < r - n" by simp
    from Cons.IH [OF a this] w c True show ?thesis
      by auto
  next
    case False
    then have le: "r \<le> n" by simp
    from elapse_fires [OF Cons.prems(1) le, of func]
    have t: "timers (elapse func n s) = []"
      and w: "world (elapse func n s) = func a (clock s + r) (world s)"
      by simp_all
    have idle: "timers s' = [] \<Longrightarrow> world (fold (elapse func) ws s') = world s' \<and> timers (fold (elapse func) ws s') = []" for ws s'
      by (induction ws arbitrary: s') (simp_all add: elapse_idle)
    from idle [OF t] w le show ?thesis by simp
  qed
qed

lemma debounced_func_is_save:
  "debouncedSaveCurrentProfile_func md toISOString p t ls
     = snd (saveCurrentProfile md (toISOString t) p ls)"
  by (simp add: debouncedSaveCurrentProfile_func_def saveCurrentProfile_def Let_def
      split: sum.splits)

lemma saveCurrentProfile_journal:
  "journal (snd (saveCurrentProfile md now p ls))
     = journal ls
       @ (if md (Some (JSON_stringify (p\<lparr>updatedAt := now\<rparr>))) (PROFILES_STORAGE_KEY ls) = None
          then [SetConfig (JSON_stringify (p\<lparr>updatedAt := now\<rparr>))] else [])"
  by (simp add: saveCurrentProfile_def setItem_config_def Let_def split: option.splits)

text \<open>
  Claim C1. Start with no timeout pending; invoke the coalescer with \<open>first\<close> and then
  with each profile of \<open>rest\<close>, every invocation less than 5000 ms after the one before
  it; then let time pass in the steps \<open>quiet\<close>. The invocations themselves write nothing.
  While less than 5000 ms have passed since the last invocation the storage, journal
  included, is what it was at the start. Once 5000 ms have passed, the storage is what a
  single \<open>saveCurrentProfile\<close> of the last invocation's argument, run 5000 ms after
  that invocation, makes of the initial storage: the journal has grown by exactly that one
  write when the medium accepts it (by none when it rejects it), and no earlier argument
  is ever written.
\<close>

theorem autosave_coalesces:
  "timers s0 = [] \<and> (\<forall>(gap, p) \<in> set rest. gap < 5000) \<longrightarrow>
     (let f = debouncedSaveCurrentProfile_func md toISOString;
          s = invocations md toISOString rest (autoSaveCurrentProfile first s0);
          lastArg = last (first # map snd rest);
          flushTime = clock s0 + sum_list (map fst rest) + 5000;
          flushed = lastArg\<lparr>updatedAt := toISOString flushTime\<rparr>
      in world s = world s0
         \<and> (sum_list quiet < 5000 \<longrightarrow> world (fold (elapse f) quiet s) = world s0)
         \<and> (5000 \<le> sum_list quiet \<longrightarrow>
               world (fold (elapse f) quiet s)
                 = snd (saveCurrentProfile md (toISOString flushTime) lastArg (world s0))
               \<and> journal (world (fold (elapse f) quiet s))
                 = journal (world s0)
                   @ (if md (Some (JSON_stringify flushed)) (PROFILES_STORAGE_KEY (world s0)) = None
                      then [SetConfig (JSON_stringify flushed)] else [])))"
proof
  assume a: "timers s0 = [] \<and> (\<forall>(gap, p) \<in> set rest. gap < 5000)"
  let ?f = "debouncedSaveCurrentProfile_func md toISOString"
  let ?s1 = "autoSaveCurrentProfile first s0"
  let ?s = "invocations md toISOString rest ?s1"
  let ?last = "last (first # map snd rest)"
  let ?t = "clock s0 + sum_list (map fst rest) + 5000"
  from a have "timers s0 = [] \<or> armed 0 first s0" by simp
  from executedFunction_arms [OF this, of 5000 first]
  have a1: "armed 5000 first ?s1" and w1: "world ?s1 = world s0" and c1: "clock ?s1 = clock s0"
    by (simp_all add: autoSaveCurrentProfile_def)
  from a have gaps: "\<forall>(gap, p) \<in> set rest. gap < 5000" by simp
  from invocations_armed [OF a1 gaps, of md toISOString]
  have arm: "armed 5000 ?last ?s" and w: "world ?s = world s0"
    and c: "clock ?s = clock s0 + sum_list (map fst rest)"
    by (simp_all add: w1 c1)
  have q: "world (fold (elapse ?f) quiet ?s)
           = (if sum_list quiet < 5000 then world s0
              else snd (saveCurrentProfile md (toISOString ?t) ?last (world s0)))"
    using quiet_armed [OF arm, of ?f quiet] by (simp add: w c debounced_func_is_save)
  have early: "sum_list quiet < 5000 \<longrightarrow> world (fold (elapse ?f) quiet ?s) = world s0"
    by (simp add: q)
  have late: "5000 \<le> sum_list quiet \<longrightarrow>
               world (fold (elapse ?f) quiet ?s)
                 = snd (saveCurrentProfile md (toISOString ?t) ?last (world s0))
               \<and> journal (world (fold (elapse ?f) quiet ?s))
                 = journal (world s0)
                   @ (if md (Some (JSON_stringify (?last\<lparr>updatedAt := toISOString ?t\<rparr>)))
                           (PROFILES_STORAGE_KEY (world s0)) = None
                      then [SetConfig (JSON_stringify (?last\<lparr>updatedAt := toISOString ?t\<rparr>))] else [])"
    by (simp add: q saveCurrentProfile_journal)
  from w early late show "let f = debouncedSaveCurrentProfile_func md toISOString;
          s = invocations md toISOString rest (autoSaveCurrentProfile first s0);
          lastArg = last (first # map snd rest);
          flushTime = clock s0 + sum_list (map fst rest) + 5000;
          flushed = lastArg\<lparr>updatedAt := toISOString flushTime\<rparr>
      in world s = world s0
         \<and> (sum_list quiet < 5000 \<longrightarrow> world (fold (elapse f) quiet s) = world s0)
         \<and> (5000 \<le> sum_list quiet \<longrightarrow>
               world (fold (elapse f) quiet s)
                 = snd (saveCurrentProfile md (toISOString flushTime) lastArg (world s0))
               \<and> journal (world (fold (elapse f) quiet s))
                 = journal (world s0)
                   @ (if md (Some (JSON_stringify flushed)) (PROFILES_STORAGE_KEY (world s0)) = None
                      then [SetConfig (JSON_stringify flushed)] else []))"
    unfolding Let_def by blast
qed

theorem autosave_coalesces_witness:
  "timers idle = []
   \<and> (1000 :: nat) < 5000 \<and> (2000 :: nat) < 5000
   \<and> world (fold (elapse (debouncedSaveCurrentProfile_func unbounded clockText)) [3000]
        (invocations unbounded clockText [(1000, profileLight), (2000, profileAuto)]
           (autoSaveCurrentProfile profileA idle))) = emptyStorage
   \<and> journal (world (fold (elapse (debouncedSaveCurrentProfile_func unbounded clockText)) [3000, 2000]
        (invocations unbounded clockText [(1000, profileLight), (2000, profileAuto)]
           (autoSaveCurrentProfile profileA idle))))
       = [SetConfig (Serialized (profileAuto\<lparr>updatedAt := clockText 8000\<rparr>))]"
proof -
  have i: "timers idle = []" "clock idle = 0" "world idle = emptyStorage"
    by (simp_all add: idle_def)
  have e: "journal (emptyStorage :: string localStorage) = []"
    by (simp add: emptyStorage_def)
  show ?thesis
    using autosave_coalesces [of idle "[(1000, profileLight), (2000, profileAuto)]" unbounded
            clockText profileA "[3000]"]
          autosave_coalesces [of idle "[(1000, profileLight), (2000, profileAuto)]" unbounded
            clockText profileA "[3000, 2000]"]
    by (simp add: i e Let_def saveCurrentProfile_unbounded unbounded_def JSON_stringify_def)
qed

section \<open>Loading never fails\<close>

lemma loadCurrentProfile_any_cases:
  "loadCurrentProfile_any st =
     (case CONFIG_STORAGE_TEXT st of Some (Serialized j) \<Rightarrow> j | _ \<Rightarrow> JNull)"
  by (simp add: loadCurrentProfile_any_def split: option.splits json_text.splits)

lemma loadProfiles_any_cases:
  "loadProfiles_any st =
     (case PROFILES_STORAGE_TEXT st of Some (Serialized j) \<Rightarrow> j | _ \<Rightarrow> JArr [])"
  by (simp add: loadProfiles_any_def split: option.splits json_text.splits)

lemma loaders_untyped:
  "loadCurrentProfile_any (untyped enc ls)
     = (case loadCurrentProfile ls of None \<Rightarrow> JNull | Some p \<Rightarrow> enc p)"
  "loadProfiles_any (untyped enc ls) = JArr (map enc (loadProfiles ls))"
  by (simp_all add: loadCurrentProfile_any_cases loadProfiles_any_cases untyped_def asText_def
      loadCurrentProfile_cases loadProfiles_cases split: option.splits json_text.splits)

text \<open>
  Claim C8, as amended. \<open>loadCurrentProfile\<close> returns \<open>null\<close> when the current-profile
  item is absent and when its text does not decode; \<open>loadProfiles\<close> returns the empty list
  when the list item is absent and when its text does not decode. Text that decodes is
  returned as the value it decodes to, whatever its shape. These three cases are all there
  are, so neither loader has an error outcome. On a storage whose items hold what the
  service writes, the values returned are the stored profile and the stored list.
\<close>

theorem loads_degrade_on_decode_failure:
  "(CONFIG_STORAGE_TEXT st = None \<longrightarrow> loadCurrentProfile_any st = JNull)
   \<and> (\<forall>d e. CONFIG_STORAGE_TEXT st = Some d \<and> JSON_parse d = Inl e \<longrightarrow>
          loadCurrentProfile_any st = JNull)
   \<and> (\<forall>j. CONFIG_STORAGE_TEXT st = Some (Serialized j) \<longrightarrow> loadCurrentProfile_any st = j)
   \<and> (PROFILES_STORAGE_TEXT st = None \<longrightarrow> loadProfiles_any st = JArr [])
   \<and> (\<forall>d e. PROFILES_STORAGE_TEXT st = Some d \<and> JSON_parse d = Inl e \<longrightarrow>
          loadProfiles_any st = JArr [])
   \<and> (\<forall>j. PROFILES_STORAGE_TEXT st = Some (Serialized j) \<longrightarrow> loadProfiles_any st = j)
   \<and> loadCurrentProfile_any (untyped enc ls)
        = (case loadCurrentProfile ls of None \<Rightarrow> JNull | Some p \<Rightarrow> enc p)
   \<and> loadProfiles_any (untyped enc ls) = JArr (map enc (loadProfiles ls))
   \<and> (CONFIG_STORAGE_KEY ls = None \<longrightarrow> loadCurrentProfile ls = None)
   \<and> (\<forall>d e. CONFIG_STORAGE_KEY ls = Some d \<and> JSON_parse d = Inl e \<longrightarrow> loadCurrentProfile ls = None)
   \<and> (PROFILES_STORAGE_KEY ls = None \<longrightarrow> loadProfiles ls = [])
   \<and> (\<forall>d e. PROFILES_STORAGE_KEY ls = Some d \<and> JSON_parse d = Inl e \<longrightarrow> loadProfiles ls = [])"
proof (intro conjI allI impI)
  show "loadCurrentProfile_any st = JNull" if "CONFIG_STORAGE_TEXT st = None"
    using that by (simp add: loadCurrentProfile_any_cases)
  show "loadCurrentProfile_any st = JNull"
    if "CONFIG_STORAGE_TEXT st = Some d \<and> JSON_parse d = Inl e" for d e
    using that by (auto simp: loadCurrentProfile_any_cases dest: JSON_parse_Inl)
  show "loadCurrentProfile_any st = j" if "CONFIG_STORAGE_TEXT st = Some (Serialized j)" for j
    using that by (simp add: loadCurrentProfile_any_cases)
  show "loadProfiles_any st = JArr []" if "PROFILES_STORAGE_TEXT st = None"
    using that by (simp add: loadProfiles_any_cases)
  show "loadProfiles_any st = JArr []"
    if "PROFILES_STORAGE_TEXT st = Some d \<and> JSON_parse d = Inl e" for d e
    using that by (auto simp: loadProfiles_any_cases dest: JSON_parse_Inl)
  show "loadProfiles_any st = j" if "PROFILES_STORAGE_TEXT st = Some (Serialized j)" for j
    using that by (simp add: loadProfiles_any_cases)
  show "loadCurrentProfile_any (untyped enc ls)
        = (case loadCurrentProfile ls of None \<Rightarrow> JNull | Some p \<Rightarrow> enc p)"
    by (rule loaders_untyped)
  show "loadProfiles_any (untyped enc ls) = JArr (map enc (loadProfiles ls))"
    by (rule loaders_untyped)
  show "loadCurrentProfile ls = None" if "CONFIG_STORAGE_KEY ls = None"
    using that by (simp add: loadCurrentProfile_cases)
  show "loadCurrentProfile ls = None" if "CONFIG_STORAGE_KEY ls = Some d \<and> JSON_parse d = Inl e" for d e
    using that by (auto simp: loadCurrentProfile_cases dest: JSON_parse_Inl)
  show "loadProfiles ls = []" if "PROFILES_STORAGE_KEY ls = None"
    using that by (simp add: loadProfiles_cases)
  show "loadProfiles ls = []" if "PROFILES_STORAGE_KEY ls = Some d \<and> JSON_parse d = Inl e" for d e
    using that by (auto simp: loadProfiles_cases dest: JSON_parse_Inl)
qed

theorem loads_degrade_on_decode_failure_witness:
  "CONFIG_STORAGE_TEXT vacantStorage = None
   \<and> loadCurrentProfile_any vacantStorage = JNull
   \<and> loadProfiles_any vacantStorage = JArr []
   \<and> CONFIG_STORAGE_TEXT garbledStorage = Some (Malformed ''{not json'')
   \<and> JSON_parse (Malformed ''{not json'' :: int json json_text) = Inl ''SyntaxError''
   \<and> loadCurrentProfile_any garbledStorage = JNull
   \<and> loadProfiles_any garbledStorage = JArr []
   \<and> loadProfiles_any listSlotObject = JObj [(''corrupt'', JBool True)]
   \<and> loadCurrentProfile (emptyStorage :: string localStorage) = None
   \<and> loadProfiles ((emptyStorage :: string localStorage)\<lparr>PROFILES_STORAGE_KEY := Some (Malformed ''[1,'')\<rparr>) = []"
  using loads_degrade_on_decode_failure
          [where st = vacantStorage and ls = "emptyStorage :: string localStorage"
             and enc = "\<lambda>p. JStr (id' p)"]
        loads_degrade_on_decode_failure
          [where st = garbledStorage
             and ls = "(emptyStorage :: string localStorage)\<lparr>PROFILES_STORAGE_KEY := Some (Malformed ''[1,'')\<rparr>"
             and enc = "\<lambda>p. JStr (id' p)"]
        loads_degrade_on_decode_failure
          [where st = listSlotObject and ls = "emptyStorage :: string localStorage"
             and enc = "\<lambda>p. JStr (id' p)"]
  by (simp add: vacantStorage_def garbledStorage_def listSlotObject_def emptyStorage_def
      loadProfiles_any_def loadCurrentProfile_any_def loadProfiles_def loadCurrentProfile_def)

text \<open>
  Claim C8 as stated, that \<open>loadProfiles\<close> returns an empty sequence whenever the contents
  of the list item are corrupt, fails for contents that are not a list and still decode:
  the JSON object is returned as it is.
\<close>

theorem loadProfiles_corrupt_counterexample:
  "PROFILES_STORAGE_TEXT listSlotObject = Some (Serialized (JObj [(''corrupt'', JBool True)]))
   \<and> loadProfiles_any listSlotObject = JObj [(''corrupt'', JBool True)]
   \<and> loadProfiles_any listSlotObject \<noteq> JArr []"
  by (simp add: listSlotObject_def loadProfiles_any_def)

section \<open>The projector's transitions\<close>

text \<open>
  Claim C9. The \<open>DELETE_PROFILE_SUCCESS\<close> transition removes from the profile list every
  entry whose id is the deleted one, sets the current profile to \<open>null\<close> when its id is the
  deleted one (whatever remains in the list) and leaves it as it is otherwise; the loading
  and error fields do not change.
\<close>

theorem reducer_delete:
  "profiles (configurationReducer now s (DELETE_PROFILE_SUCCESS pid))
       = filter (\<lambda>p. id' p \<noteq> pid) (profiles s)
   \<and> currentProfile (configurationReducer now s (DELETE_PROFILE_SUCCESS pid))
       = (case currentProfile s of
            None \<Rightarrow> None
          | Some cur \<Rightarrow> if id' cur = pid then None else currentProfile s)
   \<and> loading (configurationReducer now s (DELETE_PROFILE_SUCCESS pid)) = loading s
   \<and> error (configurationReducer now s (DELETE_PROFILE_SUCCESS pid)) = error s"
  by (simp split: option.splits)

theorem reducer_delete_witness:
  "profiles (configurationReducer [] stateAB (DELETE_PROFILE_SUCCESS ''test-id'')) = [profileB]
   \<and> currentProfile (configurationReducer [] stateAB (DELETE_PROFILE_SUCCESS ''test-id'')) = None
   \<and> currentProfile (configurationReducer [] stateAB (DELETE_PROFILE_SUCCESS ''profile2''))
       = Some profileA"
  using reducer_delete [of "[]" stateAB "''test-id''"] reducer_delete [of "[]" stateAB "''profile2''"]
  by (simp add: stateAB_def profileA_def profileB_def)

text \<open>
  Claim C10. The \<open>LOAD_ERROR\<close> and \<open>SAVE_ERROR\<close> transitions leave the current profile and
  the profile list as they are; they set loading to false and the error to the message.
\<close>

theorem reducer_errors_frame:
  "currentProfile (configurationReducer now s (LOAD_ERROR m)) = currentProfile s
   \<and> profiles (configurationReducer now s (LOAD_ERROR m)) = profiles s
   \<and> currentProfile (configurationReducer now s (SAVE_ERROR m)) = currentProfile s
   \<and> profiles (configurationReducer now s (SAVE_ERROR m)) = profiles s
   \<and> loading (configurationReducer now s (LOAD_ERROR m)) = False
   \<and> error (configurationReducer now s (LOAD_ERROR m)) = Some m
   \<and> loading (configurationReducer now s (SAVE_ERROR m)) = False
   \<and> error (configurationReducer now s (SAVE_ERROR m)) = Some m"
  by simp

theorem reducer_errors_frame_witness:
  "currentProfile (configurationReducer [] stateAB (LOAD_ERROR ''quota'')) = Some profileA
   \<and> profiles (configurationReducer [] stateAB (SAVE_ERROR ''quota'')) = [profileA, profileB]
   \<and> loading (configurationReducer [] stateAB (SAVE_ERROR ''quota'')) = False
   \<and> error (configurationReducer [] stateAB (LOAD_ERROR ''quota'')) = Some ''quota''"
  using reducer_errors_frame [of "[]" stateAB "''quota''"]
  by (simp add: stateAB_def)

end
